theory Spec2Isabelle
  imports Main "HOL-Library.Word"
begin

section \<open>Value model\<close>

text \<open>
  \<^verbatim>\<open>enum class Type\<close> of V8Simple.h, and the classes derived from \<^verbatim>\<open>Value\<close>.
  A \<^verbatim>\<open>Value*\<close> is modelled as \<open>Value option\<close>: \<open>None\<close> is \<^verbatim>\<open>nullptr\<close>.
  The payload of a \<^verbatim>\<open>Double\<close> is never computed with here, it is carried
  as its 64-bit pattern. Engine heap objects behind persistent references and embedder
  callbacks are identified by numbers.
\<close>

datatype Type =
  Type_Int | Type_Double | Type_String | Type_Bool
  | Type_Object | Type_Array | Type_Function | Type_Callback

type_synonym int32 = "32 word"
type_synonym double = "64 word"
type_synonym heap_object = nat
type_synonym callback = nat

datatype Value =
  new_Int int32
  | new_Double double
  | new_String string
  | new_Bool bool
  | new_Object heap_object
  | new_Array heap_object
  | new_Function heap_object
  | new_Callback callback

fun GetValueType :: "Value \<Rightarrow> Type" where
  "GetValueType (new_Int _) = Type_Int"
| "GetValueType (new_Double _) = Type_Double"
| "GetValueType (new_String _) = Type_String"
| "GetValueType (new_Bool _) = Type_Bool"
| "GetValueType (new_Object _) = Type_Object"
| "GetValueType (new_Array _) = Type_Array"
| "GetValueType (new_Function _) = Type_Function"
| "GetValueType (new_Callback _) = Type_Callback"

section \<open>Engine values, as the code observes them\<close>

text \<open>
  The engine is an external library. An engine call that can fail hands back a
  \<^verbatim>\<open>Maybe\<close> or \<^verbatim>\<open>MaybeLocal\<close> (\<open>None\<close> is \<^verbatim>\<open>Nothing\<close>, the empty handle),
  and when script code run by the call throws, the enclosing capture region
  (\<^verbatim>\<open>v8::TryCatch\<close>) holds the fault afterwards.
\<close>

record v8_value =
  IsInt32 :: bool
  IsNumber :: bool
  IsNumberObject :: bool
  IsBoolean :: bool
  IsBooleanObject :: bool
  IsString :: bool
  IsStringObject :: bool
  IsArray :: bool
  IsFunction :: bool
  IsObject :: bool
  IsUndefined :: bool
  IsNull :: bool
  utf8 :: string \<comment> \<open>the bytes \<^verbatim>\<open>v8::String::Utf8Value\<close> gives for the value\<close>

text \<open>A \<^verbatim>\<open>v8::Local\<close> handle is \<open>v8_value option\<close>: \<open>None\<close> when \<^verbatim>\<open>IsEmpty()\<close>.\<close>

record v8_message =
  GetSourceLine :: "v8_value option"
  Get :: "v8_value option"
  GetScriptResourceName :: "v8_value option"
  GetLineNumber :: "int option"

record try_catch =
  HasCaught :: bool
  Message :: "v8_message option"
  Exception :: "v8_value option"
  StackTrace :: "v8_value option"

record V8Scope =
  TryCatch :: try_catch

text \<open>
  The outcome of one engine call made inside a scope: what it returns, and the fault it
  leaves in the capture region when it throws.
\<close>

record 'a engine_call =
  returned :: "'a option"
  thrown :: "try_catch option"

definition after_call :: "V8Scope \<Rightarrow> 'a engine_call \<Rightarrow> V8Scope" where
  "after_call scope c =
     (case thrown c of
        None \<Rightarrow> scope
      | Some tc \<Rightarrow> scope\<lparr>TryCatch := tc\<lparr>HasCaught := True\<rparr>\<rparr>)"

text \<open>The conversions \<^verbatim>\<open>Wrap\<close> asks of a value, each an engine call.\<close>

record conversions =
  Int32Value :: "int32 engine_call"
  NumberValue :: "double engine_call"
  BooleanValue :: "bool engine_call"
  ToString :: "v8_value engine_call"
  ToObject :: "heap_object engine_call"

definition String_Empty :: v8_value where
  "String_Empty =
     \<lparr>IsInt32 = False, IsNumber = False, IsNumberObject = False, IsBoolean = False,
      IsBooleanObject = False, IsString = True, IsStringObject = False, IsArray = False,
      IsFunction = False, IsObject = False, IsUndefined = False, IsNull = False,
      utf8 = []\<rparr>"

definition Utf8Value :: "v8_value option \<Rightarrow> string" where
  "Utf8Value h = (case h of None \<Rightarrow> [] | Some v \<Rightarrow> utf8 v)"

definition FromMaybe :: "'a option \<Rightarrow> 'a \<Rightarrow> 'a" where
  "FromMaybe m d = (case m of None \<Rightarrow> d | Some x \<Rightarrow> x)"

section \<open>Exception translation\<close>

text \<open>
  \<^verbatim>\<open>ScriptException\<close> keeps its own \<^verbatim>\<open>String\<close> copy of every text; the record
  holds their contents. The C++ exceptions that travel through the code are a datatype.
\<close>

record ScriptException =
  Name :: string
  ErrorMessage :: string
  FileName :: string
  LineNumber :: int
  ExceptionStackTrace :: string
  SourceLine :: string

datatype cxx_exception =
  throw_ScriptException ScriptException
  | std_runtime_error string
  | std_out_of_range

definition Throw :: "V8Scope \<Rightarrow> ScriptException" where
  "Throw scope =
     (let emptyString = Some String_Empty;
          message = Message (TryCatch scope);
          sourceLine =
            (case message of None \<Rightarrow> emptyString
             | Some m \<Rightarrow> Some (FromMaybe (GetSourceLine m) String_Empty));
          messageStr =
            (case message of None \<Rightarrow> emptyString
             | Some m \<Rightarrow> (case Get m of None \<Rightarrow> emptyString | Some l \<Rightarrow> Some l));
          fileName =
            (case message of None \<Rightarrow> emptyString | Some m \<Rightarrow> GetScriptResourceName m);
          lineNumber =
            (case message of None \<Rightarrow> - 1 | Some m \<Rightarrow> FromMaybe (GetLineNumber m) (- 1));
          exception =
            (case Exception (TryCatch scope) of None \<Rightarrow> emptyString | Some e \<Rightarrow> Some e);
          stackTrace = Some (FromMaybe (StackTrace (TryCatch scope)) String_Empty)
      in \<lparr>Name = Utf8Value exception,
          ErrorMessage = Utf8Value messageStr,
          FileName = Utf8Value fileName,
          LineNumber = lineNumber,
          ExceptionStackTrace = Utf8Value stackTrace,
          SourceLine = Utf8Value sourceLine\<rparr>)"

text \<open>
  \<^verbatim>\<open>FromJust(scope, a)\<close>. The argument \<open>a\<close> is an engine call, made before the
  capture region is looked at.
\<close>

definition FromJust :: "V8Scope \<Rightarrow> 'a engine_call \<Rightarrow> cxx_exception + 'a" where
  "FromJust scope a =
     (let scope1 = after_call scope a in
      case returned a of
        None \<Rightarrow> Inl (throw_ScriptException (Throw scope1))
      | Some x \<Rightarrow>
          if HasCaught (TryCatch scope1) then Inl (throw_ScriptException (Throw scope1))
          else Inr x)"

section \<open>Wrap\<close>

text \<open>
  \<^verbatim>\<open>Value::Wrap(const V8Scope&, v8::Local<v8::Value>)\<close>. The value comes with
  the outcomes of the conversions the engine would perform on it.
\<close>

definition Wrap :: "V8Scope \<Rightarrow> v8_value \<times> conversions \<Rightarrow> cxx_exception + Value option" where
  "Wrap scope v =
     (let val = fst v; conv = snd v in
      if IsInt32 val then
        (case FromJust scope (Int32Value conv) of
           Inl e \<Rightarrow> Inl e | Inr n \<Rightarrow> Inr (Some (new_Int n)))
      else if IsNumber val \<or> IsNumberObject val then
        (case FromJust scope (NumberValue conv) of
           Inl e \<Rightarrow> Inl e | Inr d \<Rightarrow> Inr (Some (new_Double d)))
      else if IsBoolean val \<or> IsBooleanObject val then
        (case FromJust scope (BooleanValue conv) of
           Inl e \<Rightarrow> Inl e | Inr b \<Rightarrow> Inr (Some (new_Bool b)))
      else if IsString val \<or> IsStringObject val then
        (case FromJust scope (ToString conv) of
           Inl e \<Rightarrow> Inl e | Inr str \<Rightarrow> Inr (Some (new_String (Utf8Value (Some str)))))
      else if IsArray val then
        (case FromJust scope (ToObject conv) of
           Inl e \<Rightarrow> Inl e | Inr obj \<Rightarrow> Inr (Some (new_Array obj)))
      else if IsFunction val then
        (case FromJust scope (ToObject conv) of
           Inl e \<Rightarrow> Inl e | Inr obj \<Rightarrow> Inr (Some (new_Function obj)))
      else if IsObject val then
        (case FromJust scope (ToObject conv) of
           Inl e \<Rightarrow> Inl e | Inr obj \<Rightarrow> Inr (Some (new_Object obj)))
      else if IsUndefined val \<or> IsNull val then Inr None
      else Inl (std_runtime_error ''Unhandled type in V8Simple''))"

text \<open>\<^verbatim>\<open>Value::Wrap(const V8Scope&, v8::MaybeLocal<v8::Value>)\<close>\<close>

definition Wrap_MaybeLocal ::
    "V8Scope \<Rightarrow> (v8_value \<times> conversions) engine_call \<Rightarrow> cxx_exception + Value option" where
  "Wrap_MaybeLocal scope mvalue =
     (case FromJust scope mvalue of
        Inl e \<Rightarrow> Inl e
      | Inr v \<Rightarrow> Wrap (after_call scope mvalue) v)"

text \<open>
  The precedence of the specification (section 4.4), written as the list of its
  categories in order, each with the tag it maps to (\<open>None\<close> for the absent value):
  the tag of a value is the one of the first category the value is in.
\<close>

definition Wrap_precedence :: "((v8_value \<Rightarrow> bool) \<times> Type option) list" where
  "Wrap_precedence =
     [(IsInt32, Some Type_Int),
      (\<lambda>v. IsNumber v \<or> IsNumberObject v, Some Type_Double),
      (\<lambda>v. IsBoolean v \<or> IsBooleanObject v, Some Type_Bool),
      (\<lambda>v. IsString v \<or> IsStringObject v, Some Type_String),
      (IsArray, Some Type_Array),
      (IsFunction, Some Type_Function),
      (IsObject, Some Type_Object),
      (\<lambda>v. IsUndefined v \<or> IsNull v, None)]"

definition first_matching :: "v8_value \<Rightarrow> Type option option" where
  "first_matching val = map_option snd (find (\<lambda>c. fst c val) Wrap_precedence)"

text \<open>An engine call that returns a result and throws nothing.\<close>

definition succeeds :: "'a engine_call \<Rightarrow> bool" where
  "succeeds c = (returned c \<noteq> None \<and> thrown c = None)"

definition all_succeed :: "conversions \<Rightarrow> bool" where
  "all_succeed conv =
     (succeeds (Int32Value conv) \<and> succeeds (NumberValue conv) \<and> succeeds (BooleanValue conv)
      \<and> succeeds (ToString conv) \<and> succeeds (ToObject conv))"

text \<open>
  The engine's null and undefined are primitive values of their own: they answer false
  to every other category test.
\<close>

definition null_or_undefined :: "v8_value \<Rightarrow> bool" where
  "null_or_undefined val =
     ((IsUndefined val \<or> IsNull val) \<and> \<not> IsInt32 val \<and> \<not> IsNumber val
      \<and> \<not> IsNumberObject val \<and> \<not> IsBoolean val \<and> \<not> IsBooleanObject val
      \<and> \<not> IsString val \<and> \<not> IsStringObject val \<and> \<not> IsArray val
      \<and> \<not> IsFunction val \<and> \<not> IsObject val)"

text \<open>Values for examples: categories all false, to be switched on by update.\<close>

definition no_category :: v8_value where
  "no_category = String_Empty\<lparr>IsString := False\<rparr>"

definition just :: "'a \<Rightarrow> 'a engine_call" where
  "just x = \<lparr>returned = Some x, thrown = None\<rparr>"

definition nothing :: "'a engine_call" where
  "nothing = \<lparr>returned = None, thrown = None\<rparr>"

definition throws :: "try_catch \<Rightarrow> 'a engine_call" where
  "throws tc = \<lparr>returned = None, thrown = Some tc\<rparr>"

definition no_conversions :: conversions where
  "no_conversions =
     \<lparr>Int32Value = nothing, NumberValue = nothing, BooleanValue = nothing,
      ToString = nothing, ToObject = nothing\<rparr>"

definition fresh_TryCatch :: try_catch where
  "fresh_TryCatch = \<lparr>HasCaught = False, Message = None, Exception = None, StackTrace = None\<rparr>"

definition fresh_scope :: V8Scope where
  "fresh_scope = \<lparr>TryCatch = fresh_TryCatch\<rparr>"

section \<open>UniqueValueVector\<close>

text \<open>
  Modelled from the spec: the declaration of \<^verbatim>\<open>UniqueValueVector\<close> is not part of
  the sources at hand (only its member functions in V8Simple.cpp are). The spec calls it
  "a transient, single-pass view over an argument list", so the member \<^verbatim>\<open>_values\<close>
  is a reference to the caller's \<^verbatim>\<open>std::vector<Value*>\<close>: every copy of the
  view works on the one vector, which is the state threaded through here.

  \<^verbatim>\<open>_values.at(index)\<close> converts the \<^verbatim>\<open>int\<close> to the unsigned size type, so a
  negative index is out of range as well; \<^verbatim>\<open>at\<close> then throws.
\<close>


type_synonym value_vector = "Value option list"

definition UniqueValueVector_Length :: "value_vector \<Rightarrow> int" where
  "UniqueValueVector_Length vals = int (length vals)"

definition UniqueValueVector_Get ::
    "int \<Rightarrow> value_vector \<Rightarrow> cxx_exception + (Value option \<times> value_vector)" where
  "UniqueValueVector_Get index vals =
     (if 0 \<le> index \<and> nat index < length vals
      then Inr (vals ! nat index, vals[nat index := None])
      else Inl std_out_of_range)"

text \<open>
  A run of takes, in program order: the results of the takes and the vector left behind.
  The first take that throws ends the run.
\<close>

fun take_all ::
    "int list \<Rightarrow> value_vector \<Rightarrow> cxx_exception + (Value option list \<times> value_vector)" where
  "take_all [] vals = Inr ([], vals)"
| "take_all (i # ixs) vals =
     (case UniqueValueVector_Get i vals of
        Inl e \<Rightarrow> Inl e
      | Inr (r, vals1) \<Rightarrow>
          (case take_all ixs vals1 of
             Inl e \<Rightarrow> Inl e
           | Inr (rs, vals2) \<Rightarrow> Inr (r # rs, vals2)))"

definition in_range :: "value_vector \<Rightarrow> int \<Rightarrow> bool" where
  "in_range vals i = (0 \<le> i \<and> nat i < length vals)"

section \<open>String\<close>

text \<open>
  The buffers of \<^verbatim>\<open>String\<close> live on the C++ heap: a list of blocks, a block
  being the cells of one \<^verbatim>\<open>new char[n]\<close> (\<open>None\<close> once deleted). A pointer is
  the number of its block, \<^verbatim>\<open>nullptr\<close> is \<open>None\<close>. A cell is \<open>None\<close> while its
  value is indeterminate, as \<^verbatim>\<open>new char[n]\<close> leaves it. What the C++ standard
  leaves undefined is an error value.
\<close>

type_synonym byte = "8 word"
type_synonym cell = "byte option"
type_synonym addr = nat
type_synonym heap = "cell list option list"

datatype memory_error =
  bad_array_new_length | out_of_bounds | signed_overflow | indeterminate_read

definition INT_MAX :: int where
  "INT_MAX = 2147483647"

definition static_cast_int :: "nat \<Rightarrow> int" where
  "static_cast_int n = sint (word_of_nat n :: 32 word)"

definition block :: "heap \<Rightarrow> addr \<Rightarrow> cell list option" where
  "block h p = (if p < length h then h ! p else None)"

definition new_char_array :: "int \<Rightarrow> heap \<Rightarrow> memory_error + (addr \<times> heap)" where
  "new_char_array n h =
     (if n < 0 then Inl bad_array_new_length
      else Inr (length h, h @ [Some (replicate (nat n) None)]))"

definition memcpy :: "addr \<Rightarrow> addr \<Rightarrow> int \<Rightarrow> heap \<Rightarrow> memory_error + heap" where
  "memcpy dst src n h =
     (case block h dst of
        None \<Rightarrow> Inl out_of_bounds
      | Some d \<Rightarrow>
          (case block h src of
             None \<Rightarrow> Inl out_of_bounds
           | Some s \<Rightarrow>
               if 0 \<le> n \<and> nat n \<le> length d \<and> nat n \<le> length s
               then Inr (h[dst := Some (take (nat n) s @ drop (nat n) d)])
               else Inl out_of_bounds))"

definition store_char :: "addr \<Rightarrow> int \<Rightarrow> byte \<Rightarrow> heap \<Rightarrow> memory_error + heap" where
  "store_char p i b h =
     (case block h p of
        None \<Rightarrow> Inl out_of_bounds
      | Some blk \<Rightarrow>
          if 0 \<le> i \<and> nat i < length blk then Inr (h[p := Some (blk[nat i := Some b])])
          else Inl out_of_bounds)"

definition strlen :: "addr \<Rightarrow> heap \<Rightarrow> memory_error + nat" where
  "strlen p h =
     (case block h p of
        None \<Rightarrow> Inl out_of_bounds
      | Some blk \<Rightarrow>
          (let s = takeWhile (\<lambda>c. c \<noteq> Some 0) blk in
           if None \<in> set s then Inl indeterminate_read
           else if length s = length blk then Inl out_of_bounds
           else Inr (length s)))"

record String =
  String_value :: addr
  String_length :: int

text \<open>\<^verbatim>\<open>String::String(const char* value, int length)\<close>\<close>

definition String_ptr_len ::
    "addr option \<Rightarrow> int \<Rightarrow> heap \<Rightarrow> memory_error + (String \<times> heap)" where
  "String_ptr_len val len h =
     (if len = INT_MAX then Inl signed_overflow
      else
        case new_char_array (len + 1) h of
          Inl e \<Rightarrow> Inl e
        | Inr (p, h1) \<Rightarrow>
            (case (case val of
                     None \<Rightarrow> Inr h1
                   | Some src \<Rightarrow> if len > 0 then memcpy p src len h1 else Inr h1) of
               Inl e \<Rightarrow> Inl e
             | Inr h2 \<Rightarrow>
                 (case store_char p len 0 h2 of
                    Inl e \<Rightarrow> Inl e
                  | Inr h3 \<Rightarrow> Inr (\<lparr>String_value = p, String_length = len\<rparr>, h3))))"

text \<open>\<^verbatim>\<open>String::String(const char* value)\<close>\<close>

definition String_ptr :: "addr option \<Rightarrow> heap \<Rightarrow> memory_error + (String \<times> heap)" where
  "String_ptr val h =
     (case val of
        None \<Rightarrow> String_ptr_len val 0 h
      | Some p \<Rightarrow>
          (case strlen p h of
             Inl e \<Rightarrow> Inl e
           | Inr n \<Rightarrow> String_ptr_len val (static_cast_int n) h))"

text \<open>\<^verbatim>\<open>String::String(const String& str)\<close>\<close>

definition String_copy :: "String \<Rightarrow> heap \<Rightarrow> memory_error + (String \<times> heap)" where
  "String_copy str h = String_ptr_len (Some (String_value str)) (String_length str) h"

text \<open>
  \<^verbatim>\<open>String::String(const v8::String::Utf8Value& v)\<close>; of the engine's object the
  constructor uses \<^verbatim>\<open>*v\<close> and \<^verbatim>\<open>v.length()\<close>.
\<close>

record v8_String_Utf8Value =
  operator_star :: "addr option"
  Utf8Value_length :: int

definition String_Utf8Value ::
    "v8_String_Utf8Value \<Rightarrow> heap \<Rightarrow> memory_error + (String \<times> heap)" where
  "String_Utf8Value v h =
     String_ptr_len (if Utf8Value_length v > 0 then operator_star v else None)
       (Utf8Value_length v) h"

text \<open>The properties of a constructed String.\<close>

definition nul_terminated :: "heap \<Rightarrow> String \<Rightarrow> bool" where
  "nul_terminated h s =
     (case block h (String_value s) of
        None \<Rightarrow> False
      | Some blk \<Rightarrow>
          0 \<le> String_length s \<and> length blk = nat (String_length s) + 1
          \<and> blk ! nat (String_length s) = Some 0)"

definition freshly_allocated :: "heap \<Rightarrow> heap \<Rightarrow> addr \<Rightarrow> bool" where
  "freshly_allocated h h1 p = (block h p = None \<and> block h1 p \<noteq> None \<and> take (length h) h1 = h)"

definition readable :: "heap \<Rightarrow> addr option \<Rightarrow> int \<Rightarrow> bool" where
  "readable h val len =
     (case val of
        None \<Rightarrow> True
      | Some src \<Rightarrow> (case block h src of None \<Rightarrow> False | Some blk \<Rightarrow> nat len \<le> length blk))"

definition contents :: "heap \<Rightarrow> addr \<Rightarrow> nat \<Rightarrow> cell list" where
  "contents h p n = (case block h p of None \<Rightarrow> [] | Some blk \<Rightarrow> take n blk)"

text \<open>A heap with the one block \<^verbatim>\<open>"hi"\<close>, and a String on it.\<close>

definition heap_hi :: heap where
  "heap_hi = [Some [Some 104, Some 105, Some 0]]"

section \<open>The process: the singleton Context, the handlers, the callback bridge\<close>

text \<open>
  Embedder objects (handlers and callbacks) are identified by their address. Their
  \<^verbatim>\<open>Handle\<close>, \<^verbatim>\<open>Retain\<close> and \<^verbatim>\<open>Release\<close> are virtual, and what they
  do is the embedder's code (in V8Simple.h \<^verbatim>\<open>Retain\<close> and \<^verbatim>\<open>Release\<close> are
  empty by default). Here a call of \<^verbatim>\<open>Handle\<close> is recorded in the log of
  deliveries of the handler, and the retain count is the one the specification speaks of.
\<close>

type_synonym handler = nat
type_synonym external = nat
type_synonym script = nat

record Context =
  address :: nat
  debugMessageHandler :: "handler option"
  scriptExceptionHandler :: "handler option"
  runtimeExceptionHandler :: "handler option"
  isolate :: nat
  conversionIsolate :: nat
  instanceOf :: "Value option"

record process =
  globalContext :: "Context option" \<comment> \<open>\<^verbatim>\<open>Context::_globalContext\<close> and the object it points to\<close>
  platform :: bool \<comment> \<open>\<^verbatim>\<open>Context::_platform != nullptr\<close>\<close>
  isolates_created :: nat \<comment> \<open>calls of \<^verbatim>\<open>v8::Isolate::New\<close> so far\<close>
  V8Scopes :: nat \<comment> \<open>\<^verbatim>\<open>V8Scope\<close> guards entered so far\<close>
  retain_count :: "nat \<Rightarrow> int"
  weak_handles :: "(external \<times> callback) list"
    \<comment> \<open>the \<^verbatim>\<open>v8::External\<close>s with a weak callback registered, and its parameter\<close>
  externals_created :: nat
  runtime_faults :: "(handler \<times> string) list"
  script_faults :: "(handler \<times> ScriptException) list"

datatype abort = uncaught cxx_exception | null_dereference

text \<open>
  Modelled from the spec: the embedder-side retain count of sections 3 and 4.6, which
  \<^verbatim>\<open>Retain\<close> increments by one and \<^verbatim>\<open>Release\<close> decrements by one.
\<close>

definition Retain :: "nat \<Rightarrow> process \<Rightarrow> process" where
  "Retain x s = s\<lparr>retain_count := (retain_count s)(x := retain_count s x + 1)\<rparr>"

definition Release :: "nat \<Rightarrow> process \<Rightarrow> process" where
  "Release x s = s\<lparr>retain_count := (retain_count s)(x := retain_count s x - 1)\<rparr>"

definition HandleScriptException :: "ScriptException \<Rightarrow> process \<Rightarrow> abort + process" where
  "HandleScriptException e s =
     (case globalContext s of
        None \<Rightarrow> Inl null_dereference
      | Some c \<Rightarrow>
          (case scriptExceptionHandler c of
             None \<Rightarrow> Inr s
           | Some h \<Rightarrow> Inr (s\<lparr>script_faults := script_faults s @ [(h, e)]\<rparr>)))"

definition HandleRuntimeException :: "string \<Rightarrow> process \<Rightarrow> process" where
  "HandleRuntimeException e s =
     (case globalContext s of
        None \<Rightarrow> s
      | Some c \<Rightarrow>
          (case runtimeExceptionHandler c of
             None \<Rightarrow> s
           | Some h \<Rightarrow> s\<lparr>runtime_faults := runtime_faults s @ [(h, e)]\<rparr>))"

text \<open>
  \<^verbatim>\<open>V8Scope scope;\<close> reads the isolate and the context through
  \<^verbatim>\<open>Context::_globalContext\<close> and opens a capture region with nothing caught.
\<close>

definition V8Scope_enter :: "process \<Rightarrow> abort + (V8Scope \<times> process)" where
  "V8Scope_enter s =
     (case globalContext s of
        None \<Rightarrow> Inl null_dereference
      | Some c \<Rightarrow> Inr (fresh_scope, s\<lparr>V8Scopes := Suc (V8Scopes s)\<rparr>))"

text \<open>The engine, as far as the code calls it: the outcome of each call.\<close>

record engine =
  NewFromUtf8 :: "string \<Rightarrow> v8_value engine_call"
  Script_Compile :: "v8_value \<Rightarrow> v8_value \<Rightarrow> script engine_call"
  Script_Run :: "script \<Rightarrow> (v8_value \<times> conversions) engine_call"
  Function_New :: "external \<Rightarrow> heap_object engine_call"

text \<open>A \<^verbatim>\<open>const char*\<close> handed to the engine is read up to its first nul byte.\<close>

definition c_str :: "string \<Rightarrow> string" where
  "c_str str = takeWhile (\<lambda>c. c \<noteq> CHR 0x00) str"

definition ToV8String :: "engine \<Rightarrow> V8Scope \<Rightarrow> string \<Rightarrow> cxx_exception + v8_value" where
  "ToV8String eng scope str = FromJust scope (NewFromUtf8 eng (c_str str))"

section \<open>Unwrap and the callback bridge\<close>

text \<open>What \<^verbatim>\<open>Value::Unwrap\<close> returns, named by the engine call that made it.\<close>

datatype native =
  v8_Null
  | v8_Int32_New int32
  | v8_Number_New double
  | v8_String v8_value
  | v8_Boolean_New bool
  | Persistent_Get heap_object
  | v8_Function heap_object

fun Unwrap ::
    "engine \<Rightarrow> V8Scope \<Rightarrow> Value option \<Rightarrow> process \<Rightarrow> (cxx_exception + native) \<times> process" where
  "Unwrap eng scope None s = (Inr v8_Null, s)"
| "Unwrap eng scope (Some (new_Int n)) s = (Inr (v8_Int32_New n), s)"
| "Unwrap eng scope (Some (new_Double d)) s = (Inr (v8_Number_New d), s)"
| "Unwrap eng scope (Some (new_String str)) s =
     (case ToV8String eng scope str of Inl e \<Rightarrow> Inl e | Inr v \<Rightarrow> Inr (v8_String v), s)"
| "Unwrap eng scope (Some (new_Bool b)) s = (Inr (v8_Boolean_New b), s)"
| "Unwrap eng scope (Some (new_Object obj)) s = (Inr (Persistent_Get obj), s)"
| "Unwrap eng scope (Some (new_Array obj)) s = (Inr (Persistent_Get obj), s)"
| "Unwrap eng scope (Some (new_Function obj)) s = (Inr (Persistent_Get obj), s)"
| "Unwrap eng scope (Some (new_Callback cb)) s =
     (let s1 = Retain cb s;
          localCallback = externals_created s1;
          s2 = s1\<lparr>externals_created := Suc localCallback,
                  weak_handles := weak_handles s1 @ [(localCallback, cb)]\<rparr>
      in (case FromJust scope (Function_New eng localCallback) of
            Inl e \<Rightarrow> Inl e
          | Inr f \<Rightarrow> Inr (v8_Function f),
          s2))"

text \<open>
  Modelled from the spec: the engine's side of \<^verbatim>\<open>SetWeak\<close> (section 4.6 and the
  glossary's weak reference). When the collector finds an External unreachable (the
  function object made from it is), the weak callback registered on it runs, once, and
  the handle is gone. The callback registered by Unwrap is \<^verbatim>\<open>cb->Release()\<close> on
  its parameter.
\<close>

definition collect :: "external \<Rightarrow> process \<Rightarrow> process" where
  "collect ext s =
     (case map_of (weak_handles s) ext of
        None \<Rightarrow> s
      | Some cb \<Rightarrow> Release cb (s\<lparr>weak_handles := filter (\<lambda>h. fst h \<noteq> ext) (weak_handles s)\<rparr>))"

definition live :: "callback \<Rightarrow> process \<Rightarrow> nat" where
  "live cb s = length (filter (\<lambda>h. snd h = cb) (weak_handles s))"

definition bridge_ok :: "process \<Rightarrow> bool" where
  "bridge_ok s =
     (distinct (map fst (weak_handles s))
      \<and> list_all (\<lambda>h. fst h < externals_created s) (weak_handles s))"

text \<open>
  The function given to \<^verbatim>\<open>v8::Function::New\<close>, run when a script calls the
  bridged callback. \<open>wrap_args\<close> is its loop over the arguments, ended by the first
  exception; \<open>call_and_release\<close> is the call of the callback and the loop of deletes
  after it. The callback's \<^verbatim>\<open>Call\<close> is embedder code: given the vector it sees, the
  indices it takes, in order, and the value it returns.
\<close>

fun wrap_args ::
    "V8Scope \<Rightarrow> (v8_value \<times> conversions) list \<Rightarrow> value_vector
      \<Rightarrow> value_vector \<times> cxx_exception option" where
  "wrap_args scope [] wrappedArgs = (wrappedArgs, None)"
| "wrap_args scope (a # info) wrappedArgs =
     (case Wrap scope a of
        Inl e \<Rightarrow> (wrappedArgs, Some e)
      | Inr v \<Rightarrow> wrap_args scope info (wrappedArgs @ [v]))"

definition deleted :: "Value option list \<Rightarrow> (nat \<times> Value) list" where
  "deleted rs =
     List.map_filter (\<lambda>i. map_option (Pair i) (rs ! i)) [0..<length rs]"

definition call_and_release ::
    "(value_vector \<Rightarrow> int list \<times> Value option) \<Rightarrow> value_vector
      \<Rightarrow> cxx_exception + (Value option \<times> (nat \<times> Value) list)" where
  "call_and_release Call wrappedArgs =
     (case take_all (fst (Call wrappedArgs)) wrappedArgs of
        Inl e \<Rightarrow> Inl e
      | Inr (taken, args) \<Rightarrow>
          (let len = UniqueValueVector_Length args in
           case take_all (map int [0..<nat len]) args of
             Inl e \<Rightarrow> Inl e
           | Inr (rs, args1) \<Rightarrow> Inr (snd (Call wrappedArgs), deleted rs)))"

definition Callback_invoke ::
    "engine \<Rightarrow> (value_vector \<Rightarrow> int list \<times> Value option) \<Rightarrow> (v8_value \<times> conversions) list
      \<Rightarrow> process \<Rightarrow> abort + (native \<times> (nat \<times> Value) list \<times> process)" where
  "Callback_invoke eng Call info s =
     (case V8Scope_enter s of
        Inl a \<Rightarrow> Inl a
      | Inr (scope, s1) \<Rightarrow>
          (case wrap_args scope info [] of
             (wrappedArgs, Some (throw_ScriptException e)) \<Rightarrow>
               Inl (uncaught (throw_ScriptException e))
           | (wrappedArgs, Some std_out_of_range) \<Rightarrow> Inl (uncaught std_out_of_range)
           | (wrappedArgs, fault) \<Rightarrow>
               (let s2 = (case fault of
                            Some (std_runtime_error what) \<Rightarrow> HandleRuntimeException what s1
                          | _ \<Rightarrow> s1)
                in case call_and_release Call wrappedArgs of
                     Inl e \<Rightarrow> Inl (uncaught e)
                   | Inr (result, del) \<Rightarrow>
                       (case Unwrap eng scope result s2 of
                          (Inl e, s3) \<Rightarrow> Inl (uncaught e)
                        | (Inr r, s3) \<Rightarrow> Inr (r, del, s3)))))"

section \<open>Context\<close>

definition Evaluate_try ::
    "engine \<Rightarrow> V8Scope \<Rightarrow> string \<Rightarrow> string \<Rightarrow> cxx_exception + Value option" where
  "Evaluate_try eng scope fileName code =
     (case ToV8String eng scope fileName of
        Inl e \<Rightarrow> Inl e
      | Inr origin \<Rightarrow>
          (case ToV8String eng scope code of
             Inl e \<Rightarrow> Inl e
           | Inr source \<Rightarrow>
               (case FromJust scope (Script_Compile eng source origin) of
                  Inl e \<Rightarrow> Inl e
                | Inr script \<Rightarrow> Wrap_MaybeLocal scope (Script_Run eng script))))"

definition Evaluate ::
    "engine \<Rightarrow> string option \<Rightarrow> string option \<Rightarrow> process \<Rightarrow> abort + (Value option \<times> process)" where
  "Evaluate eng fileName code s =
     (case fileName of
        None \<Rightarrow>
          Inr (None, HandleRuntimeException
            ''V8Simple::Context::Evaluate is not defined for nullptr `fileName` argument'' s)
      | Some f \<Rightarrow>
          (case code of
             None \<Rightarrow>
               Inr (None, HandleRuntimeException
                 ''V8Simple::Context::Evaluate is not defined for nullptr `code` argument'' s)
           | Some c \<Rightarrow>
               (case V8Scope_enter s of
                  Inl a \<Rightarrow> Inl a
                | Inr (scope, s1) \<Rightarrow>
                    (case Evaluate_try eng scope f c of
                       Inr v \<Rightarrow> Inr (v, s1)
                     | Inl (throw_ScriptException e) \<Rightarrow>
                         (case HandleScriptException e s1 of
                            Inl a \<Rightarrow> Inl a
                          | Inr s2 \<Rightarrow> Inr (None, s2))
                     | Inl (std_runtime_error what) \<Rightarrow>
                         Inr (None, HandleRuntimeException what s1)
                     | Inl std_out_of_range \<Rightarrow> Inl (uncaught std_out_of_range)))))"

text \<open>
  \<^verbatim>\<open>Context::Context\<close>, for the object at address \<open>this\<close>. On the early return
  nothing of the new object is written.
\<close>

definition Context_new ::
    "engine \<Rightarrow> nat \<Rightarrow> handler option \<Rightarrow> handler option \<Rightarrow> process \<Rightarrow> abort + process" where
  "Context_new eng this scriptExceptionHandler1 runtimeExceptionHandler1 s =
     (if globalContext s \<noteq> None
      then Inr (HandleRuntimeException ''V8Simple::Contexts are not re-entrant'' s)
      else
        (let s1 = (case scriptExceptionHandler1 of None \<Rightarrow> s | Some h \<Rightarrow> Retain h s);
             s2 = (case runtimeExceptionHandler1 of None \<Rightarrow> s1 | Some h \<Rightarrow> Retain h s1);
             s3 = s2\<lparr>platform := True, isolates_created := isolates_created s2 + 2,
                     globalContext := Some
                       \<lparr>address = this, debugMessageHandler = None,
                        scriptExceptionHandler = scriptExceptionHandler1,
                        runtimeExceptionHandler = runtimeExceptionHandler1,
                        isolate = isolates_created s2,
                        conversionIsolate = Suc (isolates_created s2),
                        instanceOf = None\<rparr>\<rparr>
         in case Evaluate eng (Some ''instanceof'')
                   (Some ''(function(x, y) { return (x instanceof y); })'') s3 of
              Inl a \<Rightarrow> Inl a
            | Inr (Some (new_Function f), s4) \<Rightarrow>
                Inr (s4\<lparr>globalContext :=
                  map_option (\<lambda>c. c\<lparr>instanceOf := Some (new_Function f)\<rparr>) (globalContext s4)\<rparr>)
            | Inr (_, s4) \<Rightarrow>
                Inr (HandleRuntimeException
                  ''V8Simple could not create an instanceof function'' s4)))"

text \<open>States and engines for examples.\<close>

definition no_process :: process where
  "no_process =
     \<lparr>globalContext = None, platform = False, isolates_created = 0, V8Scopes = 0,
      retain_count = (\<lambda>_. 0), weak_handles = [], externals_created = 0,
      runtime_faults = [], script_faults = []\<rparr>"

definition live_Context :: Context where
  "live_Context =
     \<lparr>address = 1, debugMessageHandler = None, scriptExceptionHandler = Some 10,
      runtimeExceptionHandler = Some 11, isolate = 0, conversionIsolate = 1,
      instanceOf = Some (new_Function 0)\<rparr>"

definition live_process :: process where
  "live_process = no_process\<lparr>globalContext := Some live_Context, platform := True,
     isolates_created := 2, V8Scopes := 1\<rparr>"

definition failing_engine :: engine where
  "failing_engine =
     \<lparr>NewFromUtf8 = (\<lambda>_. nothing), Script_Compile = (\<lambda>_ _. nothing),
      Script_Run = (\<lambda>_. nothing), Function_New = (\<lambda>_. nothing)\<rparr>"

text \<open>A callback that takes its first argument, ignores the rest and returns nothing.\<close>

definition takes_first :: "value_vector \<Rightarrow> int list \<times> Value option" where
  "takes_first args = ([0], None)"

text \<open>
  A boxed Number whose numeric conversion runs script code that throws \<open>boom\<close>, and a
  Symbol, which is in none of the categories of Wrap.
\<close>

definition throwing_boxed_Number :: "v8_value \<times> conversions" where
  "throwing_boxed_Number =
     (no_category\<lparr>IsNumberObject := True, IsObject := True\<rparr>,
      no_conversions\<lparr>NumberValue :=
        throws (fresh_TryCatch\<lparr>Exception := Some (String_Empty\<lparr>utf8 := ''boom''\<rparr>)\<rparr>)\<rparr>)"

definition a_Symbol :: "v8_value \<times> conversions" where
  "a_Symbol = (no_category, no_conversions)"

definition Int32_1 :: "v8_value \<times> conversions" where
  "Int32_1 = (no_category\<lparr>IsInt32 := True, IsNumber := True\<rparr>,
     no_conversions\<lparr>Int32Value := just 1\<rparr>)"

text \<open>
  An engine for examples: every string can be made, the source \<open>1+1\<close> compiles to a
  script that runs to the 32-bit integer 2, every other source is a syntax error.
\<close>

definition SyntaxError :: try_catch where
  "SyntaxError =
     \<lparr>HasCaught = True,
      Message = Some
        \<lparr>GetSourceLine = Some (String_Empty\<lparr>utf8 := ''((''\<rparr>),
         Get = Some (String_Empty\<lparr>utf8 := ''Uncaught SyntaxError''\<rparr>),
         GetScriptResourceName = Some (String_Empty\<lparr>utf8 := ''t''\<rparr>),
         GetLineNumber = Some 1\<rparr>,
      Exception = Some (String_Empty\<lparr>utf8 := ''SyntaxError''\<rparr>),
      StackTrace = None\<rparr>"

definition example_engine :: engine where
  "example_engine =
     \<lparr>NewFromUtf8 = (\<lambda>str. just (String_Empty\<lparr>utf8 := str\<rparr>)),
      Script_Compile = (\<lambda>source origin. if utf8 source = ''1+1'' then just 0 else throws SyntaxError),
      Script_Run = (\<lambda>script. just
        (no_category\<lparr>IsInt32 := True, IsNumber := True\<rparr>, no_conversions\<lparr>Int32Value := just 2\<rparr>)),
      Function_New = (\<lambda>ext. just ext)\<rparr>"

text \<open>A process with the log of runtime-fault deliveries left out of the comparison.\<close>

definition but_runtime_faults :: "process \<Rightarrow> process" where
  "but_runtime_faults s = s\<lparr>runtime_faults := []\<rparr>"

section \<open>Properties of the exception translation\<close>

lemma Utf8Value_String_Empty: "Utf8Value (Some String_Empty) = []"
  by (simp add: Utf8Value_def String_Empty_def)

text \<open>
  C4, as stated, fails: with no message object the name is still read from the capture
  region. Here the region holds the thrown value \<open>boom\<close> and no message.
\<close>

theorem Throw_no_message_counterexample:
  "Message (TryCatch \<lparr>TryCatch = \<lparr>HasCaught = True, Message = None,
       Exception = Some (String_Empty\<lparr>utf8 := ''boom''\<rparr>), StackTrace = None\<rparr>\<rparr>) = None
   \<and> Name (Throw \<lparr>TryCatch = \<lparr>HasCaught = True, Message = None,
       Exception = Some (String_Empty\<lparr>utf8 := ''boom''\<rparr>), StackTrace = None\<rparr>\<rparr>) \<noteq> []"
  by (simp add: Throw_def Utf8Value_def FromMaybe_def)

text \<open>
  C4, amended. The name and the stack trace are the thrown value and the stack trace of
  the capture region, each the empty string when unset, whether or not a message object
  is available. With no message object the error message, the file name and the source
  line are empty and the line number is -1; with one, the source line (empty when the
  engine gives none), the formatted message (empty when the handle is empty), the
  resource name and the line number (-1 when the engine gives none) are read from it.
\<close>

theorem Throw_fields:
  "Name (Throw scope) = (case Exception (TryCatch scope) of None \<Rightarrow> [] | Some e \<Rightarrow> utf8 e)
   \<and> ExceptionStackTrace (Throw scope)
       = (case StackTrace (TryCatch scope) of None \<Rightarrow> [] | Some t \<Rightarrow> utf8 t)
   \<and> (case Message (TryCatch scope) of
         None \<Rightarrow>
           ErrorMessage (Throw scope) = [] \<and> FileName (Throw scope) = []
           \<and> SourceLine (Throw scope) = [] \<and> LineNumber (Throw scope) = - 1
       | Some m \<Rightarrow>
           SourceLine (Throw scope) = (case GetSourceLine m of None \<Rightarrow> [] | Some l \<Rightarrow> utf8 l)
           \<and> ErrorMessage (Throw scope) = (case Get m of None \<Rightarrow> [] | Some l \<Rightarrow> utf8 l)
           \<and> FileName (Throw scope)
               = (case GetScriptResourceName m of None \<Rightarrow> [] | Some f \<Rightarrow> utf8 f)
           \<and> LineNumber (Throw scope) = (case GetLineNumber m of None \<Rightarrow> - 1 | Some n \<Rightarrow> n))"
  by (simp add: Throw_def Utf8Value_def FromMaybe_def String_Empty_def
      split: option.splits)

section \<open>Properties of Wrap\<close>

lemma FromJust_Inr:
  "FromJust scope a = Inr x \<Longrightarrow> returned a = Some x"
  by (auto simp: FromJust_def Let_def split: option.splits if_splits)

lemma FromJust_succeeds:
  "succeeds a \<Longrightarrow> \<not> HasCaught (TryCatch scope) \<Longrightarrow> \<exists>x. FromJust scope a = Inr x"
  by (auto simp: FromJust_def succeeds_def after_call_def)

lemma first_matching_if:
  "first_matching val =
     (if IsInt32 val then Some (Some Type_Int)
      else if IsNumber val \<or> IsNumberObject val then Some (Some Type_Double)
      else if IsBoolean val \<or> IsBooleanObject val then Some (Some Type_Bool)
      else if IsString val \<or> IsStringObject val then Some (Some Type_String)
      else if IsArray val then Some (Some Type_Array)
      else if IsFunction val then Some (Some Type_Function)
      else if IsObject val then Some (Some Type_Object)
      else if IsUndefined val \<or> IsNull val then Some None
      else None)"
  by (simp add: first_matching_def Wrap_precedence_def)

text \<open>The branch of the dispatch a value takes: the position of its first category.\<close>

lemma Wrap_branches:
  obtains
    (Int32) "IsInt32 val"
  | (Number) "\<not> IsInt32 val" "IsNumber val \<or> IsNumberObject val"
  | (Boolean) "\<not> IsInt32 val" "\<not> (IsNumber val \<or> IsNumberObject val)"
      "IsBoolean val \<or> IsBooleanObject val"
  | (String) "\<not> IsInt32 val" "\<not> (IsNumber val \<or> IsNumberObject val)"
      "\<not> (IsBoolean val \<or> IsBooleanObject val)" "IsString val \<or> IsStringObject val"
  | (Array) "\<not> IsInt32 val" "\<not> (IsNumber val \<or> IsNumberObject val)"
      "\<not> (IsBoolean val \<or> IsBooleanObject val)" "\<not> (IsString val \<or> IsStringObject val)"
      "IsArray val"
  | (Function) "\<not> IsInt32 val" "\<not> (IsNumber val \<or> IsNumberObject val)"
      "\<not> (IsBoolean val \<or> IsBooleanObject val)" "\<not> (IsString val \<or> IsStringObject val)"
      "\<not> IsArray val" "IsFunction val"
  | (Object) "\<not> IsInt32 val" "\<not> (IsNumber val \<or> IsNumberObject val)"
      "\<not> (IsBoolean val \<or> IsBooleanObject val)" "\<not> (IsString val \<or> IsStringObject val)"
      "\<not> IsArray val" "\<not> IsFunction val" "IsObject val"
  | (Nullish) "\<not> IsInt32 val" "\<not> (IsNumber val \<or> IsNumberObject val)"
      "\<not> (IsBoolean val \<or> IsBooleanObject val)" "\<not> (IsString val \<or> IsStringObject val)"
      "\<not> IsArray val" "\<not> IsFunction val" "\<not> IsObject val" "IsUndefined val \<or> IsNull val"
  | (Unhandled) "\<not> IsInt32 val" "\<not> (IsNumber val \<or> IsNumberObject val)"
      "\<not> (IsBoolean val \<or> IsBooleanObject val)" "\<not> (IsString val \<or> IsStringObject val)"
      "\<not> IsArray val" "\<not> IsFunction val" "\<not> IsObject val"
      "\<not> (IsUndefined val \<or> IsNull val)"
  by blast

lemma Wrap_tag:
  assumes "Wrap scope (val, conv) = Inr r"
  shows "first_matching val = Some (map_option GetValueType r)"
  using assms
  by (cases val rule: Wrap_branches) (auto simp: Wrap_def first_matching_if split: sum.splits)

lemma Wrap_unhandled:
  "first_matching val = None \<Longrightarrow>
   Wrap scope (val, conv) = Inl (std_runtime_error ''Unhandled type in V8Simple'')"
  by (cases val rule: Wrap_branches) (simp_all add: Wrap_def first_matching_if)

lemma Wrap_returns:
  assumes "all_succeed conv" and "\<not> HasCaught (TryCatch scope)"
    and "first_matching val \<noteq> None"
  shows "\<exists>r. Wrap scope (val, conv) = Inr r"
proof -
  from assms(1) have ok:
    "succeeds (Int32Value conv)" "succeeds (NumberValue conv)" "succeeds (BooleanValue conv)"
    "succeeds (ToString conv)" "succeeds (ToObject conv)"
    by (simp_all add: all_succeed_def)
  note ex = ok [THEN FromJust_succeeds, OF assms(2)]
  from ex obtain n d b str obj where
    "FromJust scope (Int32Value conv) = Inr n" "FromJust scope (NumberValue conv) = Inr d"
    "FromJust scope (BooleanValue conv) = Inr b" "FromJust scope (ToString conv) = Inr str"
    "FromJust scope (ToObject conv) = Inr obj"
    by blast
  with assms(3) show ?thesis
    by (cases val rule: Wrap_branches) (simp_all add: Wrap_def first_matching_if)
qed

text \<open>
  C1. Whenever Wrap returns, the tag of what it returns (no tag for the absent value) is
  the one of the first category of the precedence list the value is in; a value in no
  category is an unhandled-type fault; a value in some category whose conversions succeed
  in a scope without a pending fault is wrapped. So a boxed Number, which is an Object as
  well, wraps to a Double, and two values with the same first category never wrap to
  different tags.
\<close>

theorem Wrap_first_matching_category:
  "(Wrap scope (val, conv) = Inr r \<longrightarrow> first_matching val = Some (map_option GetValueType r))
   \<and> (first_matching val = None \<longrightarrow>
        Wrap scope (val, conv) = Inl (std_runtime_error ''Unhandled type in V8Simple''))
   \<and> (all_succeed conv \<and> \<not> HasCaught (TryCatch scope) \<and> first_matching val \<noteq> None \<longrightarrow>
        (\<exists>r1. Wrap scope (val, conv) = Inr r1))
   \<and> (IsNumberObject val \<and> IsObject val \<and> \<not> IsInt32 val \<and> Wrap scope (val, conv) = Inr r \<longrightarrow>
        map_option GetValueType r = Some Type_Double)
   \<and> (first_matching val = first_matching val2 \<and> Wrap scope (val, conv) = Inr r
        \<and> Wrap scope2 (val2, conv2) = Inr r2 \<longrightarrow>
        map_option GetValueType r = map_option GetValueType r2)"
proof (intro conjI impI)
  assume "Wrap scope (val, conv) = Inr r"
  then show "first_matching val = Some (map_option GetValueType r)"
    by (rule Wrap_tag)
next
  assume "first_matching val = None"
  then show "Wrap scope (val, conv) = Inl (std_runtime_error ''Unhandled type in V8Simple'')"
    by (rule Wrap_unhandled)
next
  assume "all_succeed conv \<and> \<not> HasCaught (TryCatch scope) \<and> first_matching val \<noteq> None"
  then show "\<exists>r1. Wrap scope (val, conv) = Inr r1"
    by (simp add: Wrap_returns)
next
  assume a: "IsNumberObject val \<and> IsObject val \<and> \<not> IsInt32 val \<and> Wrap scope (val, conv) = Inr r"
  then have "first_matching val = Some (map_option GetValueType r)"
    using Wrap_tag [of scope val conv r] by simp
  moreover from a have "first_matching val = Some (Some Type_Double)"
    by (simp add: first_matching_if)
  ultimately show "map_option GetValueType r = Some Type_Double"
    by simp
next
  assume a: "first_matching val = first_matching val2 \<and> Wrap scope (val, conv) = Inr r
    \<and> Wrap scope2 (val2, conv2) = Inr r2"
  then have "first_matching val = Some (map_option GetValueType r)"
    and "first_matching val2 = Some (map_option GetValueType r2)"
    using Wrap_tag [of scope val conv r] Wrap_tag [of scope2 val2 conv2 r2] by simp_all
  with a show "map_option GetValueType r = map_option GetValueType r2"
    by simp
qed

text \<open>
  A boxed Number (an Object as well) whose numeric conversion gives the bit pattern of
  5.0, wrapped in a fresh scope.
\<close>

theorem Wrap_first_matching_category_witness:
  "Wrap fresh_scope (no_category\<lparr>IsNumberObject := True, IsObject := True\<rparr>,
       no_conversions\<lparr>NumberValue := just 0x4014000000000000\<rparr>)
     = Inr (Some (new_Double 0x4014000000000000))
   \<and> first_matching (no_category\<lparr>IsNumberObject := True, IsObject := True\<rparr>)
     = Some (Some Type_Double)"
proof -
  have w: "Wrap fresh_scope (no_category\<lparr>IsNumberObject := True, IsObject := True\<rparr>,
       no_conversions\<lparr>NumberValue := just 0x4014000000000000\<rparr>)
     = Inr (Some (new_Double 0x4014000000000000))"
    by (simp add: Wrap_def FromJust_def after_call_def no_category_def String_Empty_def
        no_conversions_def just_def fresh_scope_def fresh_TryCatch_def)
  from Wrap_first_matching_category [of fresh_scope
      "no_category\<lparr>IsNumberObject := True, IsObject := True\<rparr>"
      "no_conversions\<lparr>NumberValue := just 0x4014000000000000\<rparr>"
      "Some (new_Double 0x4014000000000000)"] w
  show ?thesis by simp
qed

text \<open>
  C8. For every native value that is null or undefined, in every scope (also one with a
  pending fault) and whatever its conversions would do, Wrap returns the absent value: no
  Value is allocated, nothing is thrown.
\<close>

theorem Wrap_null_or_undefined:
  "null_or_undefined val \<Longrightarrow> Wrap scope (val, conv) = Inr None"
  by (simp add: Wrap_def null_or_undefined_def)

theorem Wrap_null_or_undefined_witness:
  "null_or_undefined (no_category\<lparr>IsNull := True\<rparr>)
   \<and> null_or_undefined (no_category\<lparr>IsUndefined := True\<rparr>)
   \<and> Wrap \<lparr>TryCatch = fresh_TryCatch\<lparr>HasCaught := True\<rparr>\<rparr>
        (no_category\<lparr>IsNull := True\<rparr>, no_conversions) = Inr None
   \<and> Wrap fresh_scope (no_category\<lparr>IsUndefined := True\<rparr>, no_conversions) = Inr None"
proof -
  have n: "null_or_undefined (no_category\<lparr>IsNull := True\<rparr>)"
    and u: "null_or_undefined (no_category\<lparr>IsUndefined := True\<rparr>)"
    by (simp_all add: null_or_undefined_def no_category_def String_Empty_def)
  from n u Wrap_null_or_undefined [OF n] Wrap_null_or_undefined [OF u]
  show ?thesis by simp
qed

section \<open>Properties of UniqueValueVector\<close>

lemma take_all_vector:
  "list_all (in_range vals) ixs \<Longrightarrow>
   \<exists>rs. take_all ixs vals = Inr (rs, map (\<lambda>j. if int j \<in> set ixs then None else vals ! j) [0..<length vals])"
proof (induction ixs arbitrary: vals)
  case Nil
  then show ?case by (simp add: map_nth)
next
  case (Cons i ixs)
  let ?v = "vals[nat i := None]"
  from Cons.prems have i: "0 \<le> i" "nat i < length vals" and rest: "list_all (in_range vals) ixs"
    by (simp_all add: in_range_def list_all_iff)
  from rest have "list_all (in_range ?v) ixs"
    by (simp add: in_range_def list_all_iff)
  from Cons.IH [OF this] obtain rs where
    rs: "take_all ixs ?v = Inr (rs, map (\<lambda>j. if int j \<in> set ixs then None else ?v ! j) [0..<length ?v])"
    by blast
  have "map (\<lambda>j. if int j \<in> set ixs then None else ?v ! j) [0..<length ?v]
      = map (\<lambda>j. if int j \<in> set (i # ixs) then None else vals ! j) [0..<length vals]"
    using i by (auto simp: nth_list_update)
  with rs i show ?case
    by (simp add: UniqueValueVector_Get_def)
qed

lemma take_all_results:
  "list_all (in_range vals) ixs \<Longrightarrow> take_all ixs vals = Inr (rs, vals1) \<Longrightarrow>
   length rs = length ixs \<and>
   (\<forall>k<length ixs. rs ! k = (if ixs ! k \<in> set (take k ixs) then None else vals ! nat (ixs ! k)))"
proof (induction ixs arbitrary: vals rs)
  case Nil
  then show ?case by simp
next
  case (Cons i ixs)
  let ?v = "vals[nat i := None]"
  from Cons.prems(1) have i: "0 \<le> i" "nat i < length vals"
    and rest: "list_all (in_range vals) ixs"
    by (simp_all add: in_range_def list_all_iff)
  from rest have rest': "list_all (in_range ?v) ixs"
    by (simp add: in_range_def list_all_iff)
  from Cons.prems(2) i obtain rs' where
    run: "take_all ixs ?v = Inr (rs', vals1)" and rs: "rs = vals ! nat i # rs'"
    by (auto simp: UniqueValueVector_Get_def split: sum.splits)
  from Cons.IH [OF rest' run] have len: "length rs' = length ixs"
    and nth: "\<And>k. k < length ixs \<Longrightarrow>
      rs' ! k = (if ixs ! k \<in> set (take k ixs) then None else ?v ! nat (ixs ! k))"
    by simp_all
  have "rs ! k = (if (i # ixs) ! k \<in> set (take k (i # ixs)) then None
                  else vals ! nat ((i # ixs) ! k))"
    if k: "k < length (i # ixs)" for k
  proof (cases k)
    case 0
    then show ?thesis by (simp add: rs)
  next
    case (Suc m)
    with k have m: "m < length ixs" by simp
    from rest m have "0 \<le> ixs ! m" "nat (ixs ! m) < length vals"
      by (simp_all add: in_range_def list_all_length)
    with i have "?v ! nat (ixs ! m) = (if ixs ! m = i then None else vals ! nat (ixs ! m))"
      by (auto simp: nth_list_update)
    with nth [OF m] Suc i show ?thesis
      by (auto simp: rs)
  qed
  with len rs show ?case by simp
qed

text \<open>
  C9. For every vector and every run of takes at in-range indices, the run completes, and
  the take at position \<open>k\<close> of the run returns the element originally stored at its
  index when no earlier take of the run was at that index, whatever other indices were
  taken before, and an absent value when the index was taken before.
\<close>

theorem UniqueValueVector_Get_first_take_only:
  assumes "list_all (in_range vals) ixs"
  shows "\<exists>rs vals1. take_all ixs vals = Inr (rs, vals1) \<and> length rs = length ixs \<and>
    (\<forall>k<length ixs. rs ! k =
       (if ixs ! k \<in> set (take k ixs) then None else vals ! nat (ixs ! k)))"
proof -
  from take_all_vector [OF assms] obtain rs vals1 where run: "take_all ixs vals = Inr (rs, vals1)"
    by blast
  from take_all_results [OF assms run] run show ?thesis
    by blast
qed

theorem UniqueValueVector_Get_first_take_only_witness:
  "list_all (in_range [Some (new_Int 7), Some (new_Bool True)]) [1, 0, 1] \<and>
   take_all [1, 0, 1] [Some (new_Int 7), Some (new_Bool True)]
     = Inr ([Some (new_Bool True), Some (new_Int 7), None], [None, None])"
proof -
  have h: "list_all (in_range [Some (new_Int 7), Some (new_Bool True)]) [1, 0, 1]"
    by (simp add: in_range_def)
  from UniqueValueVector_Get_first_take_only [OF h] show ?thesis
    by (simp add: in_range_def UniqueValueVector_Get_def)
qed

section \<open>Properties of the String constructors\<close>

lemma String_ptr_len_ok:
  assumes "0 \<le> len" "len < INT_MAX" "readable h val len"
  shows "\<exists>s h1. String_ptr_len val len h = Inr (s, h1) \<and> String_length s = len
    \<and> freshly_allocated h h1 (String_value s) \<and> nul_terminated h1 s
    \<and> (\<forall>src. val = Some src \<longrightarrow> contents h1 (String_value s) (nat len) = contents h src (nat len))"
proof (cases val)
  case None
  with assms show ?thesis
    by (simp add: String_ptr_len_def new_char_array_def store_char_def block_def
        nul_terminated_def freshly_allocated_def nth_append)
next
  case (Some src)
  with assms(3) obtain blk where blk: "block h src = Some blk" "nat len \<le> length blk"
    by (auto simp: readable_def split: option.splits)
  then have src: "src < length h" "h ! src = Some blk"
    by (auto simp: block_def split: if_splits)
  show ?thesis
  proof (cases "len > 0")
    case True
    with assms Some blk src show ?thesis
      by (simp add: String_ptr_len_def new_char_array_def memcpy_def store_char_def block_def
          nul_terminated_def freshly_allocated_def contents_def nth_append nat_add_distrib)
  next
    case False
    with assms Some blk src show ?thesis
      by (simp add: String_ptr_len_def new_char_array_def store_char_def block_def
          nul_terminated_def freshly_allocated_def contents_def nth_append)
  qed
qed


lemma static_cast_int_small: "int n < INT_MAX \<Longrightarrow> static_cast_int n = int n"
  by (simp add: static_cast_int_def INT_MAX_def signed_of_nat signed_take_bit_int_eq_self)

lemma strlen_readable:
  "strlen p h = Inr n \<Longrightarrow> readable h (Some p) (int n)"
  by (auto simp: strlen_def readable_def Let_def length_takeWhile_le
      split: option.splits if_splits)

lemma String_ptr_len_fresh_ptr:
  assumes "String_ptr_len val len h = Inr (s, h1)"
  shows "String_value s = length h"
  using assms
  by (auto simp: String_ptr_len_def new_char_array_def split: if_splits sum.splits)

lemma freshly_allocated_old:
  assumes "freshly_allocated h h1 p" and "q < length h"
  shows "block h1 q = block h q"
proof -
  from assms(1) have t: "take (length h) h1 = h"
    by (simp add: freshly_allocated_def)
  then have "length (take (length h) h1) = length h"
    by simp
  then have le: "length h \<le> length h1"
    by simp
  from assms(2) have "take (length h) h1 ! q = h1 ! q"
    by simp
  with t have "h1 ! q = h ! q"
    by simp
  with le assms(2) show ?thesis
    by (simp add: block_def)
qed

text \<open>
  C10, as stated, fails for the constructor from a pointer with a length: with the length
  -1 the terminator is written before a buffer of no cells.
\<close>

theorem String_negative_length_counterexample:
  "String_ptr_len None (- 1) [] = Inl out_of_bounds"
  by (simp add: String_ptr_len_def INT_MAX_def new_char_array_def store_char_def block_def)

text \<open>
  C10, amended. Each constructor, given a length from 0 up to (not including) the largest
  \<^verbatim>\<open>int\<close> and a source that is null or readable over that length (for the
  constructor from a pointer alone: null or nul-terminated), returns a String whose buffer
  is freshly allocated, leaves every earlier block as it was, has length + 1 cells and a
  nul byte at the stored length. From a null pointer the result is the empty string. The
  copy has a buffer of its own with the cells of the original, which stays as it was.
\<close>

theorem String_constructors:
  "(\<exists>s h1. String_ptr None h = Inr (s, h1) \<and> String_length s = 0
      \<and> freshly_allocated h h1 (String_value s) \<and> nul_terminated h1 s)
   \<and> (strlen p h = Inr n \<and> int n < INT_MAX \<longrightarrow>
        (\<exists>s h1. String_ptr (Some p) h = Inr (s, h1) \<and> String_length s = int n
           \<and> freshly_allocated h h1 (String_value s) \<and> nul_terminated h1 s
           \<and> contents h1 (String_value s) n = contents h p n))
   \<and> (0 \<le> len \<and> len < INT_MAX \<and> readable h val len \<longrightarrow>
        (\<exists>s h1. String_ptr_len val len h = Inr (s, h1) \<and> String_length s = len
           \<and> freshly_allocated h h1 (String_value s) \<and> nul_terminated h1 s))
   \<and> (0 \<le> Utf8Value_length v \<and> Utf8Value_length v < INT_MAX
        \<and> readable h (operator_star v) (Utf8Value_length v) \<longrightarrow>
        (\<exists>s h1. String_Utf8Value v h = Inr (s, h1) \<and> String_length s = Utf8Value_length v
           \<and> freshly_allocated h h1 (String_value s) \<and> nul_terminated h1 s))
   \<and> (nul_terminated h str \<and> String_length str < INT_MAX \<longrightarrow>
        (\<exists>s h1. String_copy str h = Inr (s, h1) \<and> String_length s = String_length str
           \<and> String_value s \<noteq> String_value str
           \<and> freshly_allocated h h1 (String_value s) \<and> nul_terminated h1 s
           \<and> block h1 (String_value str) = block h (String_value str)
           \<and> contents h1 (String_value s) (nat (String_length s))
               = contents h (String_value str) (nat (String_length str))))"
proof (intro conjI impI)
  show "\<exists>s h1. String_ptr None h = Inr (s, h1) \<and> String_length s = 0
      \<and> freshly_allocated h h1 (String_value s) \<and> nul_terminated h1 s"
    using String_ptr_len_ok [of 0 h None]
    by (auto simp: String_ptr_def INT_MAX_def readable_def)
next
  assume a: "strlen p h = Inr n \<and> int n < INT_MAX"
  then have "readable h (Some p) (int n)"
    by (simp add: strlen_readable)
  with a String_ptr_len_ok [of "int n" h "Some p"]
  show "\<exists>s h1. String_ptr (Some p) h = Inr (s, h1) \<and> String_length s = int n
           \<and> freshly_allocated h h1 (String_value s) \<and> nul_terminated h1 s
           \<and> contents h1 (String_value s) n = contents h p n"
    by (auto simp: String_ptr_def static_cast_int_small)
next
  assume "0 \<le> len \<and> len < INT_MAX \<and> readable h val len"
  with String_ptr_len_ok [of len h val]
  show "\<exists>s h1. String_ptr_len val len h = Inr (s, h1) \<and> String_length s = len
           \<and> freshly_allocated h h1 (String_value s) \<and> nul_terminated h1 s"
    by auto
next
  assume a: "0 \<le> Utf8Value_length v \<and> Utf8Value_length v < INT_MAX
        \<and> readable h (operator_star v) (Utf8Value_length v)"
  then have "readable h (if Utf8Value_length v > 0 then operator_star v else None)
      (Utf8Value_length v)"
    by (simp add: readable_def)
  with a String_ptr_len_ok [of "Utf8Value_length v" h
      "if Utf8Value_length v > 0 then operator_star v else None"]
  show "\<exists>s h1. String_Utf8Value v h = Inr (s, h1) \<and> String_length s = Utf8Value_length v
           \<and> freshly_allocated h h1 (String_value s) \<and> nul_terminated h1 s"
    unfolding String_Utf8Value_def by blast
next
  assume a: "nul_terminated h str \<and> String_length str < INT_MAX"
  then obtain blk where blk: "block h (String_value str) = Some blk"
    "0 \<le> String_length str" "length blk = nat (String_length str) + 1"
    by (auto simp: nul_terminated_def split: option.splits)
  then have r: "readable h (Some (String_value str)) (String_length str)"
    by (simp add: readable_def)
  from blk(1) have old: "String_value str < length h"
    by (auto simp: block_def split: if_splits)
  from String_ptr_len_ok [OF blk(2) _ r] a obtain s h1 where
    c: "String_ptr_len (Some (String_value str)) (String_length str) h = Inr (s, h1)"
      "String_length s = String_length str" "freshly_allocated h h1 (String_value s)"
      "nul_terminated h1 s"
      "contents h1 (String_value s) (nat (String_length str))
        = contents h (String_value str) (nat (String_length str))"
    by blast
  from c(1) have new: "String_value s = length h"
    by (rule String_ptr_len_fresh_ptr)
  from c(3) old have "block h1 (String_value str) = block h (String_value str)"
    by (rule freshly_allocated_old)
  with c new old
  show "\<exists>s h1. String_copy str h = Inr (s, h1) \<and> String_length s = String_length str
           \<and> String_value s \<noteq> String_value str
           \<and> freshly_allocated h h1 (String_value s) \<and> nul_terminated h1 s
           \<and> block h1 (String_value str) = block h (String_value str)
           \<and> contents h1 (String_value s) (nat (String_length s))
               = contents h (String_value str) (nat (String_length str))"
    by (auto simp: String_copy_def)
qed



theorem String_constructors_witness:
  "strlen 0 heap_hi = Inr 2 \<and> int 2 < INT_MAX
   \<and> (0::int) \<le> 2 \<and> (2::int) < INT_MAX \<and> readable heap_hi (Some 0) 2
   \<and> nul_terminated heap_hi \<lparr>String_value = 0, String_length = 2\<rparr>
   \<and> String_ptr None heap_hi
       = Inr (\<lparr>String_value = 1, String_length = 0\<rparr>, heap_hi @ [Some [Some 0]])
   \<and> String_ptr (Some 0) heap_hi
       = Inr (\<lparr>String_value = 1, String_length = 2\<rparr>,
              heap_hi @ [Some [Some 104, Some 105, Some 0]])
   \<and> String_ptr_len None 2 heap_hi
       = Inr (\<lparr>String_value = 1, String_length = 2\<rparr>, heap_hi @ [Some [None, None, Some 0]])
   \<and> String_Utf8Value \<lparr>operator_star = Some 0, Utf8Value_length = 2\<rparr> heap_hi
       = Inr (\<lparr>String_value = 1, String_length = 2\<rparr>,
              heap_hi @ [Some [Some 104, Some 105, Some 0]])
   \<and> String_copy \<lparr>String_value = 0, String_length = 2\<rparr> heap_hi
       = Inr (\<lparr>String_value = 1, String_length = 2\<rparr>,
              heap_hi @ [Some [Some 104, Some 105, Some 0]])"
proof -
  have len: "strlen 0 heap_hi = Inr 2"
    by (simp add: strlen_def heap_hi_def block_def)
  have cast: "static_cast_int 2 = 2"
    using static_cast_int_small [of 2] by (simp add: INT_MAX_def)
  have three: "replicate 3 None = [None, None, None :: cell]"
    by (simp add: eval_nat_numeral)
  have two: "[a, b, c][2 := d] = [a, b, d]" for a b c d :: cell
    by (simp add: eval_nat_numeral)
  have copied: "String_ptr_len (Some 0) 2 heap_hi
       = Inr (\<lparr>String_value = 1, String_length = 2\<rparr>,
              heap_hi @ [Some [Some 104, Some 105, Some 0]])"
    by (simp add: String_ptr_len_def INT_MAX_def new_char_array_def memcpy_def store_char_def
        block_def heap_hi_def three two)
  have empty: "String_ptr_len None 0 heap_hi
       = Inr (\<lparr>String_value = 1, String_length = 0\<rparr>, heap_hi @ [Some [Some 0]])"
    by (simp add: String_ptr_len_def INT_MAX_def new_char_array_def store_char_def
        block_def heap_hi_def)
  have raw: "String_ptr_len None 2 heap_hi
       = Inr (\<lparr>String_value = 1, String_length = 2\<rparr>, heap_hi @ [Some [None, None, Some 0]])"
    by (simp add: String_ptr_len_def INT_MAX_def new_char_array_def store_char_def
        block_def heap_hi_def three two)
  have hyps: "int 2 < INT_MAX" "(2::int) < INT_MAX" "readable heap_hi (Some 0) 2"
    "nul_terminated heap_hi \<lparr>String_value = 0, String_length = 2\<rparr>"
    by (simp_all add: INT_MAX_def readable_def nul_terminated_def block_def heap_hi_def)
  from String_constructors [of heap_hi 0 2 2 "Some 0"
      "\<lparr>operator_star = Some 0, Utf8Value_length = 2\<rparr>"
      "\<lparr>String_value = 0, String_length = 2\<rparr>"]
    len cast copied empty raw hyps
  show ?thesis
    by (simp add: String_ptr_def String_copy_def String_Utf8Value_def)
qed

section \<open>Properties of the callback bridge\<close>

lemma release_loop_results:
  assumes "take_all (map int [0..<length args]) args = Inr (rs, args1)"
  shows "rs = args"
proof -
  let ?ixs = "map int [0..<length args]"
  have r: "list_all (in_range args) ?ixs"
    by (simp add: list_all_iff in_range_def)
  from take_all_results [OF r assms] have len: "length rs = length args"
    and nth: "\<And>k. k < length args \<Longrightarrow>
      rs ! k = (if ?ixs ! k \<in> set (take k ?ixs) then None else args ! nat (?ixs ! k))"
    by simp_all
  have "rs ! k = args ! k" if k: "k < length args" for k
  proof -
    from k have "take k ?ixs = map int [0..<k]"
      by (simp add: take_map)
    then have "?ixs ! k \<notin> set (take k ?ixs)"
      using k by auto
    with nth [OF k] k show ?thesis by simp
  qed
  with len show ?thesis
    by (simp add: list_eq_iff_nth_eq)
qed

lemma set_deleted:
  "(i, v) \<in> set (deleted rs) \<longleftrightarrow> i < length rs \<and> rs ! i = Some v"
proof
  assume "(i, v) \<in> set (deleted rs)"
  then show "i < length rs \<and> rs ! i = Some v"
    by (auto simp: deleted_def List.map_filter_def)
next
  assume a: "i < length rs \<and> rs ! i = Some v"
  then have "i \<in> {x. x < length rs \<and> (\<exists>y. rs ! x = Some y)}"
    and "(i, v) = the (map_option (Pair i) (rs ! i))"
    by simp_all
  then have "(i, v) \<in> (\<lambda>x. the (map_option (Pair x) (rs ! x))) `
      {x. x < length rs \<and> (\<exists>y. rs ! x = Some y)}"
    by (rule rev_image_eqI)
  then show "(i, v) \<in> set (deleted rs)"
    by (simp add: deleted_def List.map_filter_def)
qed

lemma distinct_deleted: "distinct (map fst (deleted rs))"
proof -
  have "map fst (deleted rs) = filter (\<lambda>i. rs ! i \<noteq> None) [0..<length rs]"
    by (auto simp: deleted_def List.map_filter_def intro!: map_idI)
  then show ?thesis by simp
qed

text \<open>
  C3. For every vector of wrapped arguments and every callback whose call operation takes
  in-range indices only, the bridge's call completes with the callback's result, and its
  loop of deletes releases the value at index \<open>i\<close> exactly when \<open>i\<close> was not taken
  (and a value was wrapped there), each such index once: no taken argument is released by
  the bridge, no untaken one is left behind.
\<close>

theorem bridge_releases_untaken_arguments:
  assumes "list_all (in_range wrappedArgs) (fst (Call wrappedArgs))"
  shows "\<exists>del. call_and_release Call wrappedArgs = Inr (snd (Call wrappedArgs), del)
    \<and> distinct (map fst del)
    \<and> (\<forall>i v. (i, v) \<in> set del \<longleftrightarrow>
          i < length wrappedArgs \<and> int i \<notin> set (fst (Call wrappedArgs))
          \<and> wrappedArgs ! i = Some v)"
proof -
  let ?S = "fst (Call wrappedArgs)"
  let ?A = "map (\<lambda>j. if int j \<in> set ?S then None else wrappedArgs ! j) [0..<length wrappedArgs]"
  from take_all_vector [OF assms] obtain taken where
    call: "take_all ?S wrappedArgs = Inr (taken, ?A)"
    by blast
  have "list_all (in_range ?A) (map int [0..<length ?A])"
    by (simp add: list_all_iff in_range_def)
  from take_all_vector [OF this] obtain rs args1 where
    loop: "take_all (map int [0..<length ?A]) ?A = Inr (rs, args1)"
    by blast
  from release_loop_results [OF loop] have rs: "rs = ?A" .
  from call loop have run: "call_and_release Call wrappedArgs = Inr (snd (Call wrappedArgs), deleted rs)"
    by (simp add: call_and_release_def UniqueValueVector_Length_def)
  have "(i, v) \<in> set (deleted rs) \<longleftrightarrow>
      i < length wrappedArgs \<and> int i \<notin> set ?S \<and> wrappedArgs ! i = Some v" for i v
    by (auto simp: set_deleted rs split: if_splits)
  with run distinct_deleted [of rs] show ?thesis
    by blast
qed

theorem bridge_releases_untaken_arguments_witness:
  "list_all (in_range [Some (new_Int 1), Some (new_Bool True), None])
     (fst (takes_first [Some (new_Int 1), Some (new_Bool True), None]))
   \<and> call_and_release takes_first [Some (new_Int 1), Some (new_Bool True), None]
       = Inr (None, [(1, new_Bool True)])"
proof -
  have h: "list_all (in_range [Some (new_Int 1), Some (new_Bool True), None])
     (fst (takes_first [Some (new_Int 1), Some (new_Bool True), None]))"
    by (simp add: in_range_def takes_first_def)
  have upt: "[0..<3] = [0, 1, 2]"
    by (simp add: upt_rec)
  have run: "call_and_release takes_first [Some (new_Int 1), Some (new_Bool True), None]
       = Inr (None, [(1, new_Bool True)])"
    by (simp add: call_and_release_def takes_first_def UniqueValueVector_Get_def
        UniqueValueVector_Length_def deleted_def List.map_filter_def upt)
  from bridge_releases_untaken_arguments [where Call = takes_first
      and wrappedArgs = "[Some (new_Int 1), Some (new_Bool True), None]", OF h] h run
  show ?thesis
    by simp
qed

lemma Unwrap_Callback_state:
  "snd (Unwrap eng scope (Some (new_Callback cb)) s)
     = (Retain cb s)\<lparr>externals_created := Suc (externals_created s),
          weak_handles := weak_handles s @ [(externals_created s, cb)]\<rparr>"
  by (simp add: Let_def Retain_def)

lemma weak_handles_collect:
  "weak_handles (collect ext s) = filter (\<lambda>h. fst h \<noteq> ext) (weak_handles s)"
proof (cases "map_of (weak_handles s) ext")
  case None
  then have "ext \<notin> fst ` set (weak_handles s)"
    by (simp add: map_of_eq_None_iff)
  then have "filter (\<lambda>h. fst h \<noteq> ext) (weak_handles s) = weak_handles s"
    by (auto simp: filter_id_conv)
  with None show ?thesis
    by (simp add: collect_def)
next
  case (Some cb)
  then show ?thesis
    by (simp add: collect_def Release_def)
qed

lemma weak_handles_fold_collect:
  "weak_handles (fold collect cs s) = filter (\<lambda>h. fst h \<notin> set cs) (weak_handles s)"
proof (induction cs arbitrary: s)
  case Nil
  then show ?case by simp
next
  case (Cons c cs)
  have "filter (\<lambda>h. fst h \<notin> set cs) (filter (\<lambda>h. fst h \<noteq> c) (weak_handles s))
      = filter (\<lambda>h. fst h \<notin> set (c # cs)) (weak_handles s)"
    by (auto intro: filter_cong)
  with Cons.IH [of "collect c s"] show ?case
    by (simp add: weak_handles_collect)
qed

lemma retain_count_collect:
  assumes "bridge_ok s"
  shows "retain_count (collect ext s) cb
    = retain_count s cb - (if (ext, cb) \<in> set (weak_handles s) then 1 else 0)"
proof -
  from assms have d: "distinct (map fst (weak_handles s))"
    by (simp add: bridge_ok_def)
  show ?thesis
  proof (cases "map_of (weak_handles s) ext")
    case None
    then have "ext \<notin> fst ` set (weak_handles s)"
      by (simp add: map_of_eq_None_iff)
    then have "(ext, cb) \<notin> set (weak_handles s)"
      by force
    with None show ?thesis
      by (simp add: collect_def)
  next
    case (Some cb1)
    with d have "(ext, cb1) \<in> set (weak_handles s)"
      by simp
    moreover from d calculation have "(ext, cb) \<in> set (weak_handles s) \<longleftrightarrow> cb = cb1"
      by (auto dest: eq_key_imp_eq_value)
    ultimately show ?thesis
      using Some by (simp add: collect_def Release_def)
  qed
qed

lemma live_without_key:
  assumes "distinct (map fst W)"
  shows "length (filter (\<lambda>h. snd h = cb) (filter (\<lambda>h. fst h \<noteq> ext) W))
      + (if (ext, cb) \<in> set W then 1 else 0)
    = length (filter (\<lambda>h. snd h = cb) W)"
  using assms
proof (induction W)
  case Nil
  then show ?case by simp
next
  case (Cons h W)
  then show ?case
    by (cases h) (auto simp: image_iff)
qed

lemma bridge_ok_collect: "bridge_ok s \<Longrightarrow> bridge_ok (collect ext s)"
  by (cases "map_of (weak_handles s) ext")
    (auto simp: bridge_ok_def collect_def Release_def list_all_iff distinct_map_filter)

text \<open>The count of a callback, less its live native references.\<close>

lemma balance_collect:
  assumes "bridge_ok s"
  shows "retain_count (collect ext s) cb - int (live cb (collect ext s))
    = retain_count s cb - int (live cb s)"
proof -
  from assms have d: "distinct (map fst (weak_handles s))"
    by (simp add: bridge_ok_def)
  have "live cb (collect ext s) + (if (ext, cb) \<in> set (weak_handles s) then 1 else 0)
      = live cb s"
    unfolding live_def weak_handles_collect by (rule live_without_key [OF d])
  with retain_count_collect [OF assms, of ext cb] show ?thesis
    by (auto split: if_splits)
qed

lemma balance_fold_collect:
  "bridge_ok s \<Longrightarrow>
   retain_count (fold collect cs s) cb - int (live cb (fold collect cs s))
     = retain_count s cb - int (live cb s)"
proof (induction cs arbitrary: s)
  case Nil
  then show ?case by simp
next
  case (Cons c cs)
  from Cons.prems have "bridge_ok (collect c s)"
    by (rule bridge_ok_collect)
  from Cons.IH [OF this] balance_collect [OF Cons.prems, of c cb] show ?case
    by simp
qed

lemma bridge_ok_Unwrap:
  "bridge_ok s \<Longrightarrow> bridge_ok (snd (Unwrap eng scope (Some (new_Callback cb)) s))"
  by (auto simp: Unwrap_Callback_state bridge_ok_def Retain_def list_all_iff
      simp del: Unwrap.simps)

lemma collect_twice:
  "collect ext (collect ext s) = collect ext s"
proof -
  have "ext \<notin> fst ` set (weak_handles (collect ext s))"
    by (auto simp: weak_handles_collect)
  then have "map_of (weak_handles (collect ext s)) ext = None"
    by (simp add: map_of_eq_None_iff)
  then show ?thesis
    by (simp add: collect_def [of ext "collect ext s"])
qed

lemma two_references:
  assumes ok: "bridge_ok s" and none: "live cb s = 0"
    and s1: "s1 = snd (Unwrap eng scope (Some (new_Callback cb)) s)"
    and s2: "s2 = snd (Unwrap eng2 scope2 (Some (new_Callback cb)) s1)"
  shows "retain_count (fold collect cs s2) cb
    = retain_count s cb + (if externals_created s \<in> set cs then 0 else 1)
      + (if Suc (externals_created s) \<in> set cs then 0 else 1)"
proof -
  from none have W: "filter (\<lambda>h. snd h = cb) (weak_handles s) = []"
    by (simp add: live_def)
  then have W': "filter (\<lambda>h. snd h = cb) (filter (\<lambda>h. fst h \<notin> set cs) (weak_handles s)) = []"
    by (auto simp: filter_empty_conv)
  have ok1: "bridge_ok s1"
    unfolding s1 using ok by (rule bridge_ok_Unwrap)
  have ok2: "bridge_ok s2"
    unfolding s2 using ok1 by (rule bridge_ok_Unwrap)
  have h2: "weak_handles s2
      = weak_handles s @ [(externals_created s, cb), (Suc (externals_created s), cb)]"
    and c2: "retain_count s2 cb = retain_count s cb + 2"
    by (simp_all add: s1 s2 Unwrap_Callback_state Retain_def del: Unwrap.simps)
  from h2 W have l2: "live cb s2 = 2"
    by (simp add: live_def)
  from h2 W' have l: "int (live cb (fold collect cs s2))
      = (if externals_created s \<in> set cs then 0 else 1)
        + (if Suc (externals_created s) \<in> set cs then 0 else 1)"
    by (simp add: live_def weak_handles_fold_collect)
  from balance_fold_collect [OF ok2, of cs cb] c2 l2 l show ?thesis
    by simp
qed

text \<open>
  C2. In every state of the bridge, an Unwrap of a Callback adds exactly one to its retain
  count and registers one weak finalizer, on a new opaque reference; when the collector
  reclaims a reference registered for the callback, the finalizer subtracts exactly one,
  and reclaiming it again changes nothing. So for a callback with no live native reference
  that is unwrapped twice, after any sequence of collections the count stands above where
  it started by the number of the two references not yet collected: it is never below
  the start, and back at it (zero, for a count that started at zero) exactly when both
  are collected.
\<close>

theorem Callback_retain_release:
  assumes "bridge_ok s"
  shows "retain_count (snd (Unwrap eng scope (Some (new_Callback cb)) s)) cb
      = retain_count s cb + 1
    \<and> weak_handles (snd (Unwrap eng scope (Some (new_Callback cb)) s))
      = weak_handles s @ [(externals_created s, cb)]
    \<and> ((ext, cb) \<in> set (weak_handles s) \<longrightarrow>
         retain_count (collect ext s) cb = retain_count s cb - 1
         \<and> collect ext (collect ext s) = collect ext s)
    \<and> (live cb s = 0 \<longrightarrow>
         retain_count
           (fold collect cs
             (snd (Unwrap eng' scope' (Some (new_Callback cb))
               (snd (Unwrap eng scope (Some (new_Callback cb)) s))))) cb
         = retain_count s cb + (if externals_created s \<in> set cs then 0 else 1)
           + (if Suc (externals_created s) \<in> set cs then 0 else 1))"
proof (intro conjI impI)
  show "retain_count (snd (Unwrap eng scope (Some (new_Callback cb)) s)) cb
      = retain_count s cb + 1"
    by (simp add: Unwrap_Callback_state Retain_def del: Unwrap.simps)
next
  show "weak_handles (snd (Unwrap eng scope (Some (new_Callback cb)) s))
      = weak_handles s @ [(externals_created s, cb)]"
    by (simp add: Unwrap_Callback_state Retain_def del: Unwrap.simps)
next
  assume "(ext, cb) \<in> set (weak_handles s)"
  with retain_count_collect [OF assms, of ext cb]
  show "retain_count (collect ext s) cb = retain_count s cb - 1"
    by simp
next
  show "collect ext (collect ext s) = collect ext s"
    by (rule collect_twice)
next
  assume "live cb s = 0"
  with assms show "retain_count
           (fold collect cs
             (snd (Unwrap eng' scope' (Some (new_Callback cb))
               (snd (Unwrap eng scope (Some (new_Callback cb)) s))))) cb
         = retain_count s cb + (if externals_created s \<in> set cs then 0 else 1)
           + (if Suc (externals_created s) \<in> set cs then 0 else 1)"
    by (rule two_references) (rule refl)+
qed

text \<open>
  One callback, unwrapped twice in a process with no bridge yet (the engine refusing to
  make the second function object makes no difference); the collector reclaims the second
  reference, then the first.
\<close>

theorem Callback_retain_release_witness:
  "bridge_ok no_process \<and> live 7 no_process = 0
   \<and> retain_count
        (snd (Unwrap failing_engine fresh_scope (Some (new_Callback 7))
          (snd (Unwrap failing_engine fresh_scope (Some (new_Callback 7)) no_process)))) 7 = 2
   \<and> retain_count
        (fold collect [1]
          (snd (Unwrap failing_engine fresh_scope (Some (new_Callback 7))
            (snd (Unwrap failing_engine fresh_scope (Some (new_Callback 7)) no_process))))) 7 = 1
   \<and> retain_count
        (fold collect [1, 0]
          (snd (Unwrap failing_engine fresh_scope (Some (new_Callback 7))
            (snd (Unwrap failing_engine fresh_scope (Some (new_Callback 7)) no_process))))) 7 = 0"
proof -
  have ok: "bridge_ok no_process" and none: "live 7 no_process = 0"
    and zero: "retain_count no_process 7 = 0" and ext: "externals_created no_process = 0"
    by (simp_all add: bridge_ok_def live_def no_process_def)
  note inst = Callback_retain_release [OF ok, where cb = 7 and eng = failing_engine
      and eng' = failing_engine and scope = fresh_scope and scope' = fresh_scope]
  from inst [where cs = "[]"] inst [where cs = "[1]"] inst [where cs = "[1, 0]"] ok none zero ext
  show ?thesis
    by (simp del: Unwrap.simps)
qed

text \<open>
  C5 fails on the code: the ScriptException raised while wrapping the boxed Number is
  not caught by the function's handler for \<^verbatim>\<open>std::runtime_error\<close>. It leaves the
  function; nothing is delivered to the runtime-fault handler and the callback is not
  called.
\<close>

theorem Callback_invoke_ScriptException_escapes:
  "Callback_invoke failing_engine takes_first [Int32_1, throwing_boxed_Number] live_process
     = Inl (uncaught (throw_ScriptException
         \<lparr>Name = ''boom'', ErrorMessage = [], FileName = [], LineNumber = - 1,
          ExceptionStackTrace = [], SourceLine = []\<rparr>))"
  by (simp add: Callback_invoke_def V8Scope_enter_def live_process_def no_process_def
      Int32_1_def throwing_boxed_Number_def Wrap_def FromJust_def after_call_def Throw_def
      Utf8Value_def FromMaybe_def just_def throws_def no_conversions_def no_category_def
      String_Empty_def fresh_scope_def fresh_TryCatch_def)

text \<open>
  The fault the handler is written for, an unhandled type, is delivered to the
  runtime-fault handler, and the callback is called with the arguments wrapped before it.
\<close>

lemma Callback_invoke_unhandled_type:
  "Callback_invoke failing_engine takes_first [Int32_1, a_Symbol, Int32_1] live_process
     = Inr (v8_Null, [],
         live_process\<lparr>V8Scopes := 2,
           runtime_faults := [(11, ''Unhandled type in V8Simple'')]\<rparr>)"
  by (simp add: Callback_invoke_def V8Scope_enter_def live_process_def no_process_def
      live_Context_def HandleRuntimeException_def
      Int32_1_def a_Symbol_def Wrap_def FromJust_def after_call_def
      just_def no_conversions_def no_category_def nothing_def
      String_Empty_def fresh_scope_def fresh_TryCatch_def
      call_and_release_def takes_first_def UniqueValueVector_Get_def
      UniqueValueVector_Length_def deleted_def List.map_filter_def)

section \<open>Properties of Context\<close>

lemma FromJust_fresh_scope:
  "FromJust fresh_scope c =
     (case returned c of
        None \<Rightarrow> Inl (throw_ScriptException (Throw (after_call fresh_scope c)))
      | Some x \<Rightarrow>
          if thrown c = None then Inr x
          else Inl (throw_ScriptException (Throw (after_call fresh_scope c))))"
  by (auto simp: FromJust_def after_call_def fresh_scope_def fresh_TryCatch_def
      split: option.splits)

lemma FromJust_just: "FromJust fresh_scope (just x) = Inr x"
  by (simp add: FromJust_fresh_scope just_def)

lemma FromJust_faults:
  "\<not> succeeds c \<Longrightarrow>
   FromJust fresh_scope c = Inl (throw_ScriptException (Throw (after_call fresh_scope c)))"
  by (auto simp: FromJust_fresh_scope succeeds_def split: option.splits)

lemma after_call_just: "after_call scope (just x) = scope"
  by (simp add: after_call_def just_def)

lemma Evaluate_try_compile_fault:
  assumes "NewFromUtf8 eng (c_str f) = just origin" "NewFromUtf8 eng (c_str cd) = just source"
    and "\<not> succeeds (Script_Compile eng source origin)"
  shows "Evaluate_try eng fresh_scope f cd
    = Inl (throw_ScriptException (Throw (after_call fresh_scope (Script_Compile eng source origin))))"
  using assms by (simp add: Evaluate_try_def ToV8String_def FromJust_just FromJust_faults)

lemma Evaluate_try_run_fault:
  assumes "NewFromUtf8 eng (c_str f) = just origin" "NewFromUtf8 eng (c_str cd) = just source"
    and "Script_Compile eng source origin = just script"
    and "\<not> succeeds (Script_Run eng script)"
  shows "Evaluate_try eng fresh_scope f cd
    = Inl (throw_ScriptException (Throw (after_call fresh_scope (Script_Run eng script))))"
  using assms
  by (simp add: Evaluate_try_def ToV8String_def FromJust_just FromJust_faults Wrap_MaybeLocal_def)

lemma Evaluate_try_runs:
  assumes "NewFromUtf8 eng (c_str f) = just origin" "NewFromUtf8 eng (c_str cd) = just source"
    and "Script_Compile eng source origin = just script"
    and "Script_Run eng script = just val"
  shows "Evaluate_try eng fresh_scope f cd = Wrap fresh_scope val"
  using assms
  by (simp add: Evaluate_try_def ToV8String_def FromJust_just Wrap_MaybeLocal_def after_call_just)

lemma Evaluate_live:
  assumes "globalContext s = Some c"
  shows "Evaluate eng (Some f) (Some cd) s =
     (case Evaluate_try eng fresh_scope f cd of
        Inr v \<Rightarrow> Inr (v, s\<lparr>V8Scopes := Suc (V8Scopes s)\<rparr>)
      | Inl (throw_ScriptException e) \<Rightarrow>
          (case scriptExceptionHandler c of
             None \<Rightarrow> Inr (None, s\<lparr>V8Scopes := Suc (V8Scopes s)\<rparr>)
           | Some h \<Rightarrow> Inr (None, s\<lparr>V8Scopes := Suc (V8Scopes s),
                                   script_faults := script_faults s @ [(h, e)]\<rparr>))
      | Inl (std_runtime_error what) \<Rightarrow>
          Inr (None, HandleRuntimeException what (s\<lparr>V8Scopes := Suc (V8Scopes s)\<rparr>))
      | Inl std_out_of_range \<Rightarrow> Inl (uncaught std_out_of_range))"
  using assms
  by (simp add: Evaluate_def V8Scope_enter_def HandleScriptException_def
      split: sum.splits cxx_exception.splits option.splits)

lemma HandleRuntimeException_live:
  "globalContext s = Some c \<Longrightarrow> runtimeExceptionHandler c = Some rh \<Longrightarrow>
   HandleRuntimeException what s = s\<lparr>runtime_faults := runtime_faults s @ [(rh, what)]\<rparr>"
  by (simp add: HandleRuntimeException_def)

text \<open>
  C7. In a process with a live Context and both handlers registered: with the resource
  name or the source absent, Evaluate returns the absent value and the only change of the
  process is the delivery of a runtime fault (no guard is entered, the engine is not
  asked anything); with both present and the two strings made, Evaluate enters one guard
  and, when the source compiles and runs, returns what Wrap makes of the result in the
  guard's scope, while a compile fault or a run fault is translated from the capture
  region and delivered to the script-exception handler, the caller receiving the absent
  value.
\<close>

theorem Evaluate_contract:
  assumes "globalContext s = Some c" and "scriptExceptionHandler c = Some h"
    and "runtimeExceptionHandler c = Some rh"
  shows "Evaluate eng None code s
      = Inr (None, s\<lparr>runtime_faults := runtime_faults s @ [(rh,
          ''V8Simple::Context::Evaluate is not defined for nullptr `fileName` argument'')]\<rparr>)
    \<and> Evaluate eng (Some f) None s
      = Inr (None, s\<lparr>runtime_faults := runtime_faults s @ [(rh,
          ''V8Simple::Context::Evaluate is not defined for nullptr `code` argument'')]\<rparr>)
    \<and> (NewFromUtf8 eng (c_str f) = just origin \<and> NewFromUtf8 eng (c_str cd) = just source \<longrightarrow>
         (Script_Compile eng source origin = just script \<and> Script_Run eng script = just val
            \<and> Wrap fresh_scope val = Inr v \<longrightarrow>
          Evaluate eng (Some f) (Some cd) s = Inr (v, s\<lparr>V8Scopes := Suc (V8Scopes s)\<rparr>))
         \<and> (\<not> succeeds (Script_Compile eng source origin) \<longrightarrow>
          Evaluate eng (Some f) (Some cd) s
            = Inr (None, s\<lparr>V8Scopes := Suc (V8Scopes s),
                script_faults := script_faults s @
                  [(h, Throw (after_call fresh_scope (Script_Compile eng source origin)))]\<rparr>))
         \<and> (Script_Compile eng source origin = just script
              \<and> \<not> succeeds (Script_Run eng script) \<longrightarrow>
          Evaluate eng (Some f) (Some cd) s
            = Inr (None, s\<lparr>V8Scopes := Suc (V8Scopes s),
                script_faults := script_faults s @
                  [(h, Throw (after_call fresh_scope (Script_Run eng script)))]\<rparr>)))"
proof (intro conjI impI)
  show "Evaluate eng None code s
      = Inr (None, s\<lparr>runtime_faults := runtime_faults s @ [(rh,
          ''V8Simple::Context::Evaluate is not defined for nullptr `fileName` argument'')]\<rparr>)"
    using assms by (simp add: Evaluate_def HandleRuntimeException_live)
next
  show "Evaluate eng (Some f) None s
      = Inr (None, s\<lparr>runtime_faults := runtime_faults s @ [(rh,
          ''V8Simple::Context::Evaluate is not defined for nullptr `code` argument'')]\<rparr>)"
    using assms by (simp add: Evaluate_def HandleRuntimeException_live)
next
  assume "NewFromUtf8 eng (c_str f) = just origin \<and> NewFromUtf8 eng (c_str cd) = just source"
    and "Script_Compile eng source origin = just script \<and> Script_Run eng script = just val
      \<and> Wrap fresh_scope val = Inr v"
  then have "Evaluate_try eng fresh_scope f cd = Inr v"
    by (simp add: Evaluate_try_runs)
  then show "Evaluate eng (Some f) (Some cd) s = Inr (v, s\<lparr>V8Scopes := Suc (V8Scopes s)\<rparr>)"
    using assms(1) by (simp add: Evaluate_live)
next
  assume "NewFromUtf8 eng (c_str f) = just origin \<and> NewFromUtf8 eng (c_str cd) = just source"
    and "\<not> succeeds (Script_Compile eng source origin)"
  then have "Evaluate_try eng fresh_scope f cd
    = Inl (throw_ScriptException (Throw (after_call fresh_scope (Script_Compile eng source origin))))"
    by (simp add: Evaluate_try_compile_fault)
  then show "Evaluate eng (Some f) (Some cd) s
            = Inr (None, s\<lparr>V8Scopes := Suc (V8Scopes s),
                script_faults := script_faults s @
                  [(h, Throw (after_call fresh_scope (Script_Compile eng source origin)))]\<rparr>)"
    using assms(1,2) by (simp add: Evaluate_live)
next
  assume "NewFromUtf8 eng (c_str f) = just origin \<and> NewFromUtf8 eng (c_str cd) = just source"
    and "Script_Compile eng source origin = just script \<and> \<not> succeeds (Script_Run eng script)"
  then have "Evaluate_try eng fresh_scope f cd
    = Inl (throw_ScriptException (Throw (after_call fresh_scope (Script_Run eng script))))"
    by (simp add: Evaluate_try_run_fault)
  then show "Evaluate eng (Some f) (Some cd) s
            = Inr (None, s\<lparr>V8Scopes := Suc (V8Scopes s),
                script_faults := script_faults s @
                  [(h, Throw (after_call fresh_scope (Script_Run eng script)))]\<rparr>)"
    using assms(1,2) by (simp add: Evaluate_live)
qed

theorem Evaluate_contract_witness:
  "globalContext live_process = Some live_Context
   \<and> scriptExceptionHandler live_Context = Some 10
   \<and> runtimeExceptionHandler live_Context = Some 11
   \<and> Evaluate example_engine None (Some ''1+1'') live_process
       = Inr (None, live_process\<lparr>runtime_faults := [(11,
           ''V8Simple::Context::Evaluate is not defined for nullptr `fileName` argument'')]\<rparr>)
   \<and> Evaluate example_engine (Some ''t'') (Some ''1+1'') live_process
       = Inr (Some (new_Int 2), live_process\<lparr>V8Scopes := 2\<rparr>)
   \<and> Evaluate example_engine (Some ''t'') (Some ''(('') live_process
       = Inr (None, live_process\<lparr>V8Scopes := 2, script_faults := [(10,
           \<lparr>Name = ''SyntaxError'', ErrorMessage = ''Uncaught SyntaxError'', FileName = ''t'',
            LineNumber = 1, ExceptionStackTrace = [], SourceLine = ''((''\<rparr>)]\<rparr>)"
proof -
  have live: "globalContext live_process = Some live_Context"
    "scriptExceptionHandler live_Context = Some 10"
    "runtimeExceptionHandler live_Context = Some 11"
    by (simp_all add: live_process_def live_Context_def)
  have logs: "runtime_faults live_process = []" "script_faults live_process = []"
    "V8Scopes live_process = 1"
    by (simp_all add: live_process_def no_process_def)
  have strings: "NewFromUtf8 example_engine (c_str ''t'') = just (String_Empty\<lparr>utf8 := ''t''\<rparr>)"
    "NewFromUtf8 example_engine (c_str ''1+1'') = just (String_Empty\<lparr>utf8 := ''1+1''\<rparr>)"
    "NewFromUtf8 example_engine (c_str ''(('') = just (String_Empty\<lparr>utf8 := ''((''\<rparr>)"
    by (simp_all add: example_engine_def c_str_def)
  have compile: "Script_Compile example_engine (String_Empty\<lparr>utf8 := ''1+1''\<rparr>)
      (String_Empty\<lparr>utf8 := ''t''\<rparr>) = just 0"
    "Script_Compile example_engine (String_Empty\<lparr>utf8 := ''((''\<rparr>)
      (String_Empty\<lparr>utf8 := ''t''\<rparr>) = throws SyntaxError"
    "\<not> succeeds (throws SyntaxError :: script engine_call)"
    by (simp_all add: example_engine_def succeeds_def throws_def)
  have run: "Script_Run example_engine 0 = just
      (no_category\<lparr>IsInt32 := True, IsNumber := True\<rparr>, no_conversions\<lparr>Int32Value := just 2\<rparr>)"
    by (simp add: example_engine_def)
  have wrap: "Wrap fresh_scope
      (no_category\<lparr>IsInt32 := True, IsNumber := True\<rparr>, no_conversions\<lparr>Int32Value := just 2\<rparr>)
      = Inr (Some (new_Int 2))"
    by (simp add: Wrap_def FromJust_just no_category_def no_conversions_def String_Empty_def)
  have translated: "Throw (after_call fresh_scope (throws SyntaxError :: script engine_call))
      = \<lparr>Name = ''SyntaxError'', ErrorMessage = ''Uncaught SyntaxError'', FileName = ''t'',
            LineNumber = 1, ExceptionStackTrace = [], SourceLine = ''((''\<rparr>"
    by (simp add: Throw_def after_call_def throws_def SyntaxError_def Utf8Value_def
        FromMaybe_def String_Empty_def)
  note inst = Evaluate_contract [OF live, where eng = example_engine and f = "''t''"
      and origin = "String_Empty\<lparr>utf8 := ''t''\<rparr>"]
  from inst [where code = "Some ''1+1''" and cd = "''1+1''"
        and source = "String_Empty\<lparr>utf8 := ''1+1''\<rparr>" and script = 0
        and val = "(no_category\<lparr>IsInt32 := True, IsNumber := True\<rparr>,
          no_conversions\<lparr>Int32Value := just 2\<rparr>)" and v = "Some (new_Int 2)"]
    inst [where cd = "''((''" and source = "String_Empty\<lparr>utf8 := ''((''\<rparr>"]
    live logs strings compile run wrap translated
  show ?thesis
    by simp
qed

lemma but_runtime_faults_HandleRuntimeException:
  "but_runtime_faults (HandleRuntimeException what s) = but_runtime_faults s"
  by (simp add: HandleRuntimeException_def but_runtime_faults_def split: option.splits)

lemma globalContext_HandleRuntimeException:
  "globalContext (HandleRuntimeException what s) = globalContext s"
  by (simp add: HandleRuntimeException_def split: option.splits)

lemma HandleRuntimeException_log:
  "HandleRuntimeException what (s\<lparr>runtime_faults := L\<rparr>)
     = (HandleRuntimeException what s)\<lparr>runtime_faults :=
         L @ drop (length (runtime_faults s)) (runtime_faults (HandleRuntimeException what s))\<rparr>"
  by (simp add: HandleRuntimeException_def split: option.splits)

lemma Evaluate_but_runtime_faults:
  "map_sum id (map_prod id but_runtime_faults) (Evaluate eng f cd (s\<lparr>runtime_faults := L\<rparr>))
     = map_sum id (map_prod id but_runtime_faults) (Evaluate eng f cd s)"
  by (simp add: Evaluate_def HandleRuntimeException_def HandleScriptException_def
      V8Scope_enter_def but_runtime_faults_def
      split: option.splits sum.splits cxx_exception.splits)

lemma Unwrap_runtime_faults:
  "Unwrap eng scope v (s\<lparr>runtime_faults := L\<rparr>)
     = map_prod id (\<lambda>t. t\<lparr>runtime_faults := L\<rparr>) (Unwrap eng scope v s)"
proof (cases v)
  case None
  then show ?thesis by simp
next
  case (Some x)
  then show ?thesis
    by (cases x) (simp_all add: Let_def Retain_def)
qed

lemma Unwrap_but_runtime_faults:
  assumes "but_runtime_faults t = but_runtime_faults t1"
  shows "map_prod id but_runtime_faults (Unwrap eng scope v t)
      = map_prod id but_runtime_faults (Unwrap eng scope v t1)"
proof -
  from assms have "t = t1\<lparr>runtime_faults := runtime_faults t\<rparr>"
    by (cases t, cases t1) (simp add: but_runtime_faults_def)
  then have "Unwrap eng scope v t
      = map_prod id (\<lambda>x. x\<lparr>runtime_faults := runtime_faults t\<rparr>) (Unwrap eng scope v t1)"
    using Unwrap_runtime_faults [where s = t1 and L = "runtime_faults t"] by simp
  then show ?thesis
    by (cases "Unwrap eng scope v t1") (simp add: but_runtime_faults_def)
qed

lemma Callback_invoke_but_runtime_faults:
  "map_sum id (map_prod id (map_prod id but_runtime_faults))
       (Callback_invoke eng Call info (s\<lparr>runtime_faults := L\<rparr>))
     = map_sum id (map_prod id (map_prod id but_runtime_faults)) (Callback_invoke eng Call info s)"
proof (cases "globalContext s")
  case None
  then show ?thesis
    by (simp add: Callback_invoke_def V8Scope_enter_def)
next
  case (Some c)
  let ?s1 = "s\<lparr>V8Scopes := Suc (V8Scopes s)\<rparr>"
  define finish where "finish wrappedArgs t =
    (case call_and_release Call wrappedArgs of
       Inl e \<Rightarrow> Inl (uncaught e)
     | Inr (result, del) \<Rightarrow>
         (case Unwrap eng fresh_scope result t of
            (Inl e, s3) \<Rightarrow> Inl (uncaught e)
          | (Inr r, s3) \<Rightarrow> Inr (r, del, s3)))" for wrappedArgs t
  have fin: "map_sum id (map_prod id (map_prod id but_runtime_faults)) (finish wrappedArgs t)
      = map_sum id (map_prod id (map_prod id but_runtime_faults)) (finish wrappedArgs t1)"
    if "but_runtime_faults t = but_runtime_faults t1" for wrappedArgs t t1
  proof (cases "call_and_release Call wrappedArgs")
    case (Inl e)
    then show ?thesis by (simp add: finish_def)
  next
    case (Inr p)
    obtain result del where p: "p = (result, del)" by (cases p)
    from Unwrap_but_runtime_faults [OF that, of eng fresh_scope result]
    show ?thesis
      by (cases "Unwrap eng fresh_scope result t"; cases "Unwrap eng fresh_scope result t1")
        (auto simp: finish_def Inr p split: sum.splits)
  qed
  obtain wrappedArgs fault where w: "wrap_args fresh_scope info [] = (wrappedArgs, fault)"
    by (cases "wrap_args fresh_scope info []")
  let ?s1L = "s\<lparr>runtime_faults := L, V8Scopes := Suc (V8Scopes s)\<rparr>"
  have same: "but_runtime_faults ?s1L = but_runtime_faults ?s1"
    by (simp add: but_runtime_faults_def)
  have handled: "but_runtime_faults (HandleRuntimeException what ?s1L)
      = but_runtime_faults (HandleRuntimeException what ?s1)" for what
    by (simp add: HandleRuntimeException_def but_runtime_faults_def split: option.splits)
  show ?thesis
  proof (cases fault)
    case None
    with Some w fin [OF same, of wrappedArgs] show ?thesis
      by (simp add: Callback_invoke_def V8Scope_enter_def finish_def)
  next
    case (Some e)
    show ?thesis
    proof (cases e)
      case (throw_ScriptException x)
      with \<open>globalContext s = Some c\<close> Some w show ?thesis
        by (simp add: Callback_invoke_def V8Scope_enter_def)
    next
      case (std_runtime_error what)
      with \<open>globalContext s = Some c\<close> Some w fin [OF handled, of wrappedArgs what]
      show ?thesis
        by (simp add: Callback_invoke_def V8Scope_enter_def finish_def)
    next
      case std_out_of_range
      with \<open>globalContext s = Some c\<close> Some w show ?thesis
        by (simp add: Callback_invoke_def V8Scope_enter_def)
    qed
  qed
qed

text \<open>
  C6. With a Context live, constructing another returns normally, having done nothing
  but hand the runtime fault to the live Context's runtime-fault handler (when it has
  one): the singleton is the same Context, every other part of the process is as it
  was, nothing of the new object is initialised; and the operations of the live Context
  give the same results as without the attempt, leaving the same process but for the
  log of runtime faults.
\<close>

theorem Context_new_while_live:
  assumes "globalContext s = Some c"
  shows "\<exists>s1. Context_new eng this seh reh s = Inr s1
    \<and> s1 = HandleRuntimeException ''V8Simple::Contexts are not re-entrant'' s
    \<and> globalContext s1 = Some c
    \<and> s1\<lparr>runtime_faults := runtime_faults s\<rparr> = s
    \<and> runtime_faults s1
        = (case runtimeExceptionHandler c of
             None \<Rightarrow> runtime_faults s
           | Some rh \<Rightarrow> runtime_faults s @ [(rh, ''V8Simple::Contexts are not re-entrant'')])
    \<and> map_sum id (map_prod id but_runtime_faults) (Evaluate eng' f cd s1)
        = map_sum id (map_prod id but_runtime_faults) (Evaluate eng' f cd s)
    \<and> map_sum id (map_prod id (map_prod id but_runtime_faults)) (Callback_invoke eng' Call info s1)
        = map_sum id (map_prod id (map_prod id but_runtime_faults)) (Callback_invoke eng' Call info s)"
proof -
  let ?s1 = "HandleRuntimeException ''V8Simple::Contexts are not re-entrant'' s"
  have upd: "?s1 = s\<lparr>runtime_faults := runtime_faults ?s1\<rparr>"
    by (simp add: HandleRuntimeException_def split: option.splits)
  have "Context_new eng this seh reh s = Inr ?s1"
    using assms by (simp add: Context_new_def)
  moreover have "globalContext ?s1 = Some c"
    using assms by (simp add: globalContext_HandleRuntimeException)
  moreover have "?s1\<lparr>runtime_faults := runtime_faults s\<rparr> = s"
    by (simp add: HandleRuntimeException_def split: option.splits)
  moreover have "runtime_faults ?s1
        = (case runtimeExceptionHandler c of
             None \<Rightarrow> runtime_faults s
           | Some rh \<Rightarrow> runtime_faults s @ [(rh, ''V8Simple::Contexts are not re-entrant'')])"
    using assms by (simp add: HandleRuntimeException_def split: option.splits)
  moreover have "map_sum id (map_prod id but_runtime_faults) (Evaluate eng' f cd ?s1)
        = map_sum id (map_prod id but_runtime_faults) (Evaluate eng' f cd s)"
    using Evaluate_but_runtime_faults [where s = s and L = "runtime_faults ?s1"
        and eng = eng' and f = f and cd = cd] upd by simp
  moreover have "map_sum id (map_prod id (map_prod id but_runtime_faults))
          (Callback_invoke eng' Call info ?s1)
        = map_sum id (map_prod id (map_prod id but_runtime_faults))
          (Callback_invoke eng' Call info s)"
    using Callback_invoke_but_runtime_faults [where s = s and L = "runtime_faults ?s1"
        and eng = eng' and Call = Call and info = info] upd
    by simp
  ultimately show ?thesis
    by blast
qed

theorem Context_new_while_live_witness:
  "globalContext live_process = Some live_Context
   \<and> Context_new failing_engine 2 (Some 20) (Some 21) live_process
       = Inr (live_process\<lparr>runtime_faults := [(11, ''V8Simple::Contexts are not re-entrant'')]\<rparr>)"
proof -
  have live: "globalContext live_process = Some live_Context"
    by (simp add: live_process_def)
  have "runtimeExceptionHandler live_Context = Some 11" "runtime_faults live_process = []"
    by (simp_all add: live_process_def live_Context_def no_process_def)
  with Context_new_while_live [OF live, of failing_engine 2 "Some 20" "Some 21"] live
  show ?thesis
    by (auto simp: HandleRuntimeException_def)
qed

end
